theory Spec2Isabelle
  imports Main "HOL-Library.Word" "HOL-Library.Char_ord" "HOL-Library.AList"
begin

unbundle bit_operations_syntax

section \<open>JavaScript values, exceptions and the world\<close>

text \<open>
  The package is JavaScript for Node.js.  Its exported functions take and return
  dynamically typed values, so arguments are modelled by \<open>jsval\<close>: the JSON-representable
  values and \<open>undefined\<close>.  A string is a \<open>char list\<close>; an object is an association
  list in which the first binding of a key is the one a property read sees.  Numbers are
  kept as integers: the code only asks whether a number is zero.  A \<open>Uint8Array\<close> is a
  list of 8-bit words.
\<close>

type_synonym byte = "8 word"
type_synonym bytes = "byte list"

datatype jsval =
    JUndefined
  | JNull
  | JBool bool
  | JNum int
  | JStr string
  | JArr "jsval list"
  | JObj "(string \<times> jsval) list"

text \<open>\<open>!x\<close> is \<open>\<not> truthy x\<close>.\<close>

fun truthy :: "jsval \<Rightarrow> bool" where
  "truthy JUndefined = False"
| "truthy JNull = False"
| "truthy (JBool b) = b"
| "truthy (JNum n) = (n \<noteq> 0)"
| "truthy (JStr s) = (s \<noteq> [])"
| "truthy (JArr xs) = True"
| "truthy (JObj fs) = True"

fun typeof :: "jsval \<Rightarrow> string" where
  "typeof JUndefined = ''undefined''"
| "typeof JNull = ''object''"
| "typeof (JBool b) = ''boolean''"
| "typeof (JNum n) = ''number''"
| "typeof (JStr s) = ''string''"
| "typeof (JArr xs) = ''object''"
| "typeof (JObj fs) = ''object''"

text \<open>
  \<open>x.k\<close> for the property names the package reads (\<open>publicKey\<close>, \<open>privateKey\<close>,
  \<open>algorithm\<close>, \<open>v\<close>, \<open>alg\<close>, \<open>kem\<close>, \<open>s\<close>, \<open>n\<close>, \<open>c\<close>): none of them is a
  property of a string, a number, a boolean or an array, so the read gives \<open>undefined\<close>
  there.  Reading a property of \<open>null\<close> or \<open>undefined\<close> throws a \<open>TypeError\<close>; the
  callers below test \<open>nullish\<close> before they read.
\<close>

fun get_member :: "jsval \<Rightarrow> string \<Rightarrow> jsval" where
  "get_member (JObj fs) k = (case map_of fs k of Some v \<Rightarrow> v | None \<Rightarrow> JUndefined)"
| "get_member x k = JUndefined"

fun nullish :: "jsval \<Rightarrow> bool" where
  "nullish JUndefined = True"
| "nullish JNull = True"
| "nullish x = False"

text \<open>\<open>a || b\<close>, and a parameter with a default value (\<open>function f(x = d)\<close>).\<close>

definition js_or :: "jsval \<Rightarrow> jsval \<Rightarrow> jsval" where
  "js_or a b = (if truthy a then a else b)"

definition default_arg :: "jsval \<Rightarrow> jsval \<Rightarrow> jsval" where
  "default_arg d x = (if x = JUndefined then d else x)"

fun str_of :: "jsval \<Rightarrow> string" where
  "str_of (JStr s) = s"
| "str_of x = []"


fun delete_member :: "string \<Rightarrow> jsval \<Rightarrow> jsval" where
  "delete_member k (JObj fs) = JObj (AList.delete k fs)"
| "delete_member k y = y"

text \<open>
  Every \<open>throw\<close> of the package is a constructor of \<open>error\<close>; the comment gives the
  message.  \<open>Thrown msg\<close> is an exception raised inside the runtime or a library
  (\<open>mlkem\<close>, \<open>@noble/ciphers\<close>, WebCrypto, \<open>Buffer\<close>), \<open>TypeError_reading\<close> the
  \<open>TypeError\<close> of a property read on \<open>null\<close>.  The three wrappers carry the error
  whose message the \<open>catch\<close> block appends.
\<close>

datatype error =
    Thrown string
  | TypeError_reading string
  | Invalid_key_pair_data_must_be_an_object
  | Invalid_key_pair_data_publicKey
  | Invalid_key_pair_data_privateKey
  | Unsupported_algorithm jsval
  | Unknown_algorithm jsval
  | Failed_to_generate_key_pair jsval error
  | Message_is_required
  | Invalid_recipient_public_key
  | Public_key_must_be_valid_Base64
  | Invalid_encrypted_content
  | Invalid_private_key
  | Invalid_encrypted_message_format
  | Missing_required_fields
  | ChaCha20_Poly1305_encryption_failed error
  | ChaCha20_Poly1305_decryption_failed error
  | Encryption_failed error
  | Decryption_failed error

text \<open>
  What the process reads from outside: the bytes the system's random source will
  deliver (a tape and the number of bytes already drawn) and the clock \<open>Date.now()\<close>.
\<close>

record world =
  entropy :: "nat \<Rightarrow> byte"
  drawn :: nat
  now :: int

text \<open>The two key-encapsulation classes of the \<open>mlkem\<close> package.\<close>

datatype kem = MlKem1024 | MlKem768

text \<open>
  The runtime and the libraries the package calls but does not contain.  A call that can
  throw returns \<open>Inl\<close> of the exception's message.
  \<^item> \<open>JSON_parse\<close>, \<open>JSON_stringify\<close>: \<open>JSON.parse\<close> (\<open>None\<close> is the \<open>SyntaxError\<close>) and
    \<open>JSON.stringify\<close>;
  \<^item> \<open>Buffer_toString_base64 b\<close>: \<open>Buffer.from(b).toString('base64')\<close>;
    \<open>Buffer_from_base64 x\<close>: \<open>Buffer.from(x, 'base64')\<close>, on any value;
  \<^item> \<open>TextEncoder_encode\<close>, \<open>TextDecoder_decode\<close>: \<open>new TextEncoder().encode(x)\<close> and
    \<open>new TextDecoder().decode(b)\<close>;
  \<^item> \<open>kem_generateKeyPair\<close>, \<open>kem_encap\<close>, \<open>kem_decap\<close>: the methods of an \<open>mlkem\<close>
    instance; the last argument of the first two is the randomness the call draws;
  \<^item> \<open>subtle_deriveBits_HKDF ikm salt info bits\<close>: WebCrypto's \<open>importKey\<close> and
    \<open>deriveBits\<close> with HKDF and SHA-256;
  \<^item> \<open>chacha20poly1305_encrypt key nonce aad p\<close>, \<open>chacha20poly1305_decrypt\<close>:
    \<open>chacha20poly1305(key, nonce, aad).encrypt(p)\<close> and \<open>.decrypt(c)\<close> of
    \<open>@noble/ciphers\<close>.
\<close>

record runtime =
  JSON_parse :: "string \<Rightarrow> jsval option"
  JSON_stringify :: "jsval \<Rightarrow> string"
  Buffer_toString_base64 :: "bytes \<Rightarrow> string"
  Buffer_from_base64 :: "jsval \<Rightarrow> string + bytes"
  TextEncoder_encode :: "jsval \<Rightarrow> bytes"
  TextDecoder_decode :: "bytes \<Rightarrow> string"
  kem_generateKeyPair :: "kem \<Rightarrow> bytes \<Rightarrow> string + (bytes \<times> bytes)"
  kem_encap :: "kem \<Rightarrow> bytes \<Rightarrow> bytes \<Rightarrow> string + (bytes \<times> bytes)"
  kem_decap :: "kem \<Rightarrow> bytes \<Rightarrow> bytes \<Rightarrow> string + bytes"
  subtle_deriveBits_HKDF :: "bytes \<Rightarrow> bytes \<Rightarrow> bytes \<Rightarrow> nat \<Rightarrow> string + bytes"
  chacha20poly1305_encrypt :: "bytes \<Rightarrow> bytes \<Rightarrow> bytes \<Rightarrow> bytes \<Rightarrow> string + bytes"
  chacha20poly1305_decrypt :: "bytes \<Rightarrow> bytes \<Rightarrow> bytes \<Rightarrow> bytes \<Rightarrow> string + bytes"

section \<open>crypto-utils.js\<close>

definition Base64_encode :: "runtime \<Rightarrow> bytes \<Rightarrow> string" where
  "Base64_encode rt bs = Buffer_toString_base64 rt bs"

definition Base64_decode :: "runtime \<Rightarrow> jsval \<Rightarrow> error + bytes" where
  "Base64_decode rt base64 =
     (case Buffer_from_base64 rt base64 of Inl msg \<Rightarrow> Inl (Thrown msg) | Inr bs \<Rightarrow> Inr bs)"

definition HKDF_derive :: "runtime \<Rightarrow> bytes \<Rightarrow> bytes \<Rightarrow> string \<Rightarrow> nat \<Rightarrow> error + bytes" where
  "HKDF_derive rt inputKeyMaterial salt info len =
     (case subtle_deriveBits_HKDF rt inputKeyMaterial salt (TextEncoder_encode rt (JStr info))
             (len * 8) of
        Inl msg \<Rightarrow> Inl (Thrown msg)
      | Inr derivedBits \<Rightarrow> Inr derivedBits)"

definition ChaCha20Poly1305_encrypt :: "runtime \<Rightarrow> bytes \<Rightarrow> bytes \<Rightarrow> bytes \<Rightarrow> error + bytes" where
  "ChaCha20Poly1305_encrypt rt key nonce plaintext =
     (case chacha20poly1305_encrypt rt key nonce [] plaintext of
        Inl msg \<Rightarrow> Inl (ChaCha20_Poly1305_encryption_failed (Thrown msg))
      | Inr ciphertext \<Rightarrow> Inr ciphertext)"

definition ChaCha20Poly1305_decrypt :: "runtime \<Rightarrow> bytes \<Rightarrow> bytes \<Rightarrow> bytes \<Rightarrow> error + bytes" where
  "ChaCha20Poly1305_decrypt rt key nonce ciphertext =
     (case chacha20poly1305_decrypt rt key nonce [] ciphertext of
        Inl msg \<Rightarrow> Inl (ChaCha20_Poly1305_decryption_failed (Thrown msg))
      | Inr plaintext \<Rightarrow> Inr plaintext)"

definition getRandomBytes :: "world \<Rightarrow> nat \<Rightarrow> bytes \<times> world" where
  "getRandomBytes w len =
     (map (entropy w) [drawn w ..< drawn w + len], w\<lparr>drawn := drawn w + len\<rparr>)"

definition generateSalt :: "world \<Rightarrow> bytes \<times> world" where
  "generateSalt w = getRandomBytes w 32"

definition generateNonce :: "world \<Rightarrow> bytes \<times> world" where
  "generateNonce w = getRandomBytes w 12"

text \<open>\<open>data.fill(0)\<close>: the buffer keeps its length, every byte becomes 0.\<close>

definition secureClear :: "bytes \<Rightarrow> bytes" where
  "secureClear data = map (\<lambda>b. 0) data"

section \<open>key-manager.js\<close>

definition ML_KEM_1024_PUBLIC_KEY_SIZE :: nat where "ML_KEM_1024_PUBLIC_KEY_SIZE = 1568"
definition ML_KEM_1024_PRIVATE_KEY_SIZE :: nat where "ML_KEM_1024_PRIVATE_KEY_SIZE = 3168"
definition ML_KEM_768_PUBLIC_KEY_SIZE :: nat where "ML_KEM_768_PUBLIC_KEY_SIZE = 1184"
definition ML_KEM_768_PRIVATE_KEY_SIZE :: nat where "ML_KEM_768_PRIVATE_KEY_SIZE = 2400"

definition SUPPORTED_ALGORITHMS :: "string list" where
  "SUPPORTED_ALGORITHMS = [''ML-KEM-1024'', ''ML-KEM-768'']"

definition DEFAULT_ALGORITHM :: string where
  "DEFAULT_ALGORITHM = ''ML-KEM-1024''"

text \<open>\<open>SUPPORTED_ALGORITHMS.includes(x)\<close>: only a string equals an element.\<close>

definition includes_algorithm :: "jsval \<Rightarrow> bool" where
  "includes_algorithm x = (x \<in> set (map JStr SUPPORTED_ALGORITHMS))"

text \<open>
  \<open>generateKeyPair\<close>: the key pair comes from the instance's \<open>generateKeyPair()\<close>, which
  draws 64 random bytes; an exception inside the \<open>try\<close> is rethrown with the
  algorithm's name.
\<close>

definition generateKeyPair :: "runtime \<Rightarrow> world \<Rightarrow> jsval \<Rightarrow> (error + jsval) \<times> world" where
  "generateKeyPair rt w algorithm0 =
     (let algorithm = default_arg (JStr DEFAULT_ALGORITHM) algorithm0 in
      if \<not> includes_algorithm algorithm then (Inl (Unsupported_algorithm algorithm), w)
      else
        (let kemInstance = (if algorithm = JStr ''ML-KEM-1024'' then MlKem1024 else MlKem768);
             coins = fst (getRandomBytes w 64);
             w1 = snd (getRandomBytes w 64)
         in (case kem_generateKeyPair rt kemInstance coins of
               Inl msg \<Rightarrow> (Inl (Failed_to_generate_key_pair algorithm (Thrown msg)), w1)
             | Inr keyPair \<Rightarrow>
                 (Inr (JObj [(''publicKey'', JStr (Base64_encode rt (fst keyPair))),
                             (''privateKey'', JStr (Base64_encode rt (snd keyPair))),
                             (''algorithm'', algorithm)]), w1))))"

text \<open>
  \<open>exportKeyPair\<close> reads three properties of its argument, which throws on \<open>null\<close> and
  \<open>undefined\<close>, and adds the clock and the version tag.
\<close>

definition exportKeyPair :: "world \<Rightarrow> jsval \<Rightarrow> error + jsval" where
  "exportKeyPair w keyPair =
     (if nullish keyPair then Inl (TypeError_reading ''publicKey'')
      else Inr (JObj [(''publicKey'', get_member keyPair ''publicKey''),
                      (''privateKey'', get_member keyPair ''privateKey''),
                      (''algorithm'', get_member keyPair ''algorithm''),
                      (''timestamp'', JNum (now w)),
                      (''version'', JStr ''1.0.0'')]))"

definition importKeyPair :: "jsval \<Rightarrow> error + jsval" where
  "importKeyPair data =
     (if \<not> truthy data \<or> typeof data \<noteq> ''object'' then
        Inl Invalid_key_pair_data_must_be_an_object
      else if \<not> truthy (get_member data ''publicKey'')
              \<or> typeof (get_member data ''publicKey'') \<noteq> ''string'' then
        Inl Invalid_key_pair_data_publicKey
      else if \<not> truthy (get_member data ''privateKey'')
              \<or> typeof (get_member data ''privateKey'') \<noteq> ''string'' then
        Inl Invalid_key_pair_data_privateKey
      else
        let algorithm = js_or (get_member data ''algorithm'') (JStr DEFAULT_ALGORITHM) in
        if \<not> includes_algorithm algorithm then Inl (Unsupported_algorithm algorithm)
        else Inr (JObj [(''publicKey'', get_member data ''publicKey''),
                        (''privateKey'', get_member data ''privateKey''),
                        (''algorithm'', algorithm)]))"

text \<open>
  The regular expression \<open>/^[A-Za-z0-9+/]+=*$/\<close>: one or more characters of the class,
  then only \<open>=\<close> up to the end.  \<open>=\<close> is not in the class, so the greedy first part is
  the longest prefix of class characters.
\<close>

definition base64_class :: "char \<Rightarrow> bool" where
  "base64_class ch =
     ((CHR ''A'' \<le> ch \<and> ch \<le> CHR ''Z'') \<or> (CHR ''a'' \<le> ch \<and> ch \<le> CHR ''z'')
      \<or> (CHR ''0'' \<le> ch \<and> ch \<le> CHR ''9'') \<or> ch = CHR ''+'' \<or> ch = CHR ''/'')"

definition base64_regex_test :: "string \<Rightarrow> bool" where
  "base64_regex_test s =
     (takeWhile base64_class s \<noteq> [] \<and> list_all (\<lambda>ch. ch = CHR ''='') (dropWhile base64_class s))"

text \<open>
  \<open>validatePublicKey\<close>: \<open>validatePublicKey_try\<close> is the body of the \<open>try\<close> block, the
  \<open>catch\<close> turns every exception into \<open>false\<close>.
\<close>

definition validatePublicKey_try :: "runtime \<Rightarrow> jsval \<Rightarrow> jsval \<Rightarrow> error + bool" where
  "validatePublicKey_try rt publicKey algorithm =
     (if \<not> truthy publicKey \<or> typeof publicKey \<noteq> ''string'' then Inr False
      else if \<not> base64_regex_test (str_of publicKey) then Inr False
      else case Base64_decode rt publicKey of
          Inl e \<Rightarrow> Inl e
        | Inr keyBytes \<Rightarrow>
            if algorithm \<noteq> JStr ''ML-KEM-1024'' \<and> algorithm \<noteq> JStr ''ML-KEM-768'' then Inr False
            else
              let expectedSize = (if algorithm = JStr ''ML-KEM-1024''
                                  then ML_KEM_1024_PUBLIC_KEY_SIZE
                                  else ML_KEM_768_PUBLIC_KEY_SIZE)
              in if length keyBytes \<noteq> expectedSize then Inr False
                 else if list_all (\<lambda>byte. byte = 0) keyBytes then Inr False
                 else Inr True)"

definition validatePublicKey :: "runtime \<Rightarrow> jsval \<Rightarrow> jsval \<Rightarrow> error + bool" where
  "validatePublicKey rt publicKey algorithm0 =
     (case validatePublicKey_try rt publicKey (default_arg (JStr DEFAULT_ALGORITHM) algorithm0) of
        Inl e \<Rightarrow> Inr False
      | Inr b \<Rightarrow> Inr b)"

definition getKeySizes :: "jsval \<Rightarrow> error + nat \<times> nat" where
  "getKeySizes algorithm0 =
     (let algorithm = default_arg (JStr DEFAULT_ALGORITHM) algorithm0 in
      if algorithm = JStr ''ML-KEM-1024'' then
        Inr (ML_KEM_1024_PUBLIC_KEY_SIZE, ML_KEM_1024_PRIVATE_KEY_SIZE)
      else if algorithm = JStr ''ML-KEM-768'' then
        Inr (ML_KEM_768_PUBLIC_KEY_SIZE, ML_KEM_768_PRIVATE_KEY_SIZE)
      else Inl (Unknown_algorithm algorithm))"

section \<open>encryptor.js\<close>

text \<open>
  The two sensitive buffers of a call, as they stand when the call returns or throws:
  \<open>None\<close> when the call ended before the buffer existed.
\<close>

record buffers =
  sharedSecret_buffer :: "bytes option"
  chachaKey_buffer :: "bytes option"

definition no_buffers :: buffers where
  "no_buffers = \<lparr>sharedSecret_buffer = None, chachaKey_buffer = None\<rparr>"

text \<open>The object literal \<open>encryptedMessage\<close> of \<open>encrypt\<close>.\<close>

definition encryptedMessage :: "jsval \<Rightarrow> string \<Rightarrow> string \<Rightarrow> string \<Rightarrow> string \<Rightarrow> int \<Rightarrow> jsval" where
  "encryptedMessage algorithm kem s n c t =
     JObj [(''v'', JNum 3), (''alg'', algorithm), (''kem'', JStr kem), (''s'', JStr s),
           (''n'', JStr n), (''c'', JStr c), (''t'', JNum t)]"

text \<open>
  \<open>encrypt\<close>.  Every exception inside the \<open>try\<close> block is rethrown as
  \<open>Encryption failed: ...\<close>.  \<open>encap\<close> draws 32 random bytes before the salt and the
  nonce are drawn.  The two \<open>secureClear\<close> calls stand after the object literal and are
  reached only when nothing before them threw.
\<close>

definition encrypt ::
  "runtime \<Rightarrow> world \<Rightarrow> jsval \<Rightarrow> jsval \<Rightarrow> jsval \<Rightarrow> (error + string) \<times> buffers \<times> world" where
  "encrypt rt w message recipientPublicKey algorithm0 =
     (let algorithm = default_arg (JStr ''ML-KEM-1024'') algorithm0 in
      if \<not> truthy message \<and> message \<noteq> JStr [] then
        (Inl (Encryption_failed Message_is_required), no_buffers, w)
      else if \<not> truthy recipientPublicKey \<or> typeof recipientPublicKey \<noteq> ''string'' then
        (Inl (Encryption_failed Invalid_recipient_public_key), no_buffers, w)
      else if \<not> base64_regex_test (str_of recipientPublicKey) then
        (Inl (Encryption_failed Public_key_must_be_valid_Base64), no_buffers, w)
      else (case Base64_decode rt recipientPublicKey of
          Inl e \<Rightarrow> (Inl (Encryption_failed e), no_buffers, w)
        | Inr recipientPubKeyBytes \<Rightarrow>
      (let kemInstance = (if algorithm = JStr ''ML-KEM-768'' then MlKem768 else MlKem1024);
           coins = fst (getRandomBytes w 32);
           w1 = snd (getRandomBytes w 32)
       in (case kem_encap rt kemInstance recipientPubKeyBytes coins of
          Inl msg \<Rightarrow> (Inl (Encryption_failed (Thrown msg)), no_buffers, w1)
        | Inr (kemCiphertext, sharedSecret) \<Rightarrow>
      (let salt = fst (generateSalt w1);
           w2 = snd (generateSalt w1)
       in (case HKDF_derive rt sharedSecret salt ''ChaCha20-Poly1305'' 32 of
          Inl e \<Rightarrow>
            (Inl (Encryption_failed e),
             \<lparr>sharedSecret_buffer = Some sharedSecret, chachaKey_buffer = None\<rparr>, w2)
        | Inr chachaKey \<Rightarrow>
      (let nonce = fst (generateNonce w2);
           w3 = snd (generateNonce w2);
           plaintext = TextEncoder_encode rt message
       in (case ChaCha20Poly1305_encrypt rt chachaKey nonce plaintext of
          Inl e \<Rightarrow>
            (Inl (Encryption_failed e),
             \<lparr>sharedSecret_buffer = Some sharedSecret, chachaKey_buffer = Some chachaKey\<rparr>, w3)
        | Inr messageCiphertext \<Rightarrow>
            (Inr (JSON_stringify rt
                   (encryptedMessage algorithm (Base64_encode rt kemCiphertext)
                      (Base64_encode rt salt) (Base64_encode rt nonce)
                      (Base64_encode rt messageCiphertext) (now w3))),
             \<lparr>sharedSecret_buffer = Some (secureClear sharedSecret),
              chachaKey_buffer = Some (secureClear chachaKey)\<rparr>, w3)))))))))"

text \<open>The structure test of \<open>decrypt\<close> and \<open>isValidEncryptedMessage\<close>: six fields.\<close>

definition has_required_fields :: "jsval \<Rightarrow> bool" where
  "has_required_fields messageData =
     (truthy (get_member messageData ''v'') \<and> truthy (get_member messageData ''alg'')
      \<and> truthy (get_member messageData ''kem'') \<and> truthy (get_member messageData ''s'')
      \<and> truthy (get_member messageData ''n'') \<and> truthy (get_member messageData ''c''))"

text \<open>
  \<open>decrypt\<close>.  The parameter \<open>algorithm\<close> defaults to \<open>null\<close>.  \<open>JSON.parse\<close> has a
  \<open>try\<close> of its own; \<open>JSON.parse\<close> can return \<open>null\<close>, and then the first property
  read throws.  Every exception is rethrown as \<open>Decryption failed: ...\<close>.  The two
  \<open>secureClear\<close> calls stand after \<open>ChaCha20Poly1305.decrypt\<close> has returned.
\<close>

definition decrypt :: "runtime \<Rightarrow> jsval \<Rightarrow> jsval \<Rightarrow> jsval \<Rightarrow> (error + string) \<times> buffers" where
  "decrypt rt encryptedContent privateKey algorithm0 =
     (let algorithm = default_arg JNull algorithm0 in
      if \<not> truthy encryptedContent \<or> typeof encryptedContent \<noteq> ''string'' then
        (Inl (Decryption_failed Invalid_encrypted_content), no_buffers)
      else if \<not> truthy privateKey \<or> typeof privateKey \<noteq> ''string'' then
        (Inl (Decryption_failed Invalid_private_key), no_buffers)
      else (case JSON_parse rt (str_of encryptedContent) of
          None \<Rightarrow> (Inl (Decryption_failed Invalid_encrypted_message_format), no_buffers)
        | Some messageData \<Rightarrow>
      if nullish messageData then
        (Inl (Decryption_failed (TypeError_reading ''v'')), no_buffers)
      else if \<not> has_required_fields messageData then
        (Inl (Decryption_failed Missing_required_fields), no_buffers)
      else
      (let detectedAlgorithm = js_or algorithm (get_member messageData ''alg'');
           kemInstance = (if detectedAlgorithm = JStr ''ML-KEM-768'' then MlKem768 else MlKem1024)
       in (case Base64_decode rt privateKey of
          Inl e \<Rightarrow> (Inl (Decryption_failed e), no_buffers)
        | Inr privateKeyBytes \<Rightarrow>
      (case Base64_decode rt (get_member messageData ''kem'') of
          Inl e \<Rightarrow> (Inl (Decryption_failed e), no_buffers)
        | Inr kemCiphertext \<Rightarrow>
      (case kem_decap rt kemInstance kemCiphertext privateKeyBytes of
          Inl msg \<Rightarrow> (Inl (Decryption_failed (Thrown msg)), no_buffers)
        | Inr sharedSecret \<Rightarrow>
      (case Base64_decode rt (get_member messageData ''s'') of
          Inl e \<Rightarrow>
            (Inl (Decryption_failed e),
             \<lparr>sharedSecret_buffer = Some sharedSecret, chachaKey_buffer = None\<rparr>)
        | Inr salt \<Rightarrow>
      (case HKDF_derive rt sharedSecret salt ''ChaCha20-Poly1305'' 32 of
          Inl e \<Rightarrow>
            (Inl (Decryption_failed e),
             \<lparr>sharedSecret_buffer = Some sharedSecret, chachaKey_buffer = None\<rparr>)
        | Inr chachaKey \<Rightarrow>
      (case Base64_decode rt (get_member messageData ''n'') of
          Inl e \<Rightarrow>
            (Inl (Decryption_failed e),
             \<lparr>sharedSecret_buffer = Some sharedSecret, chachaKey_buffer = Some chachaKey\<rparr>)
        | Inr nonce \<Rightarrow>
      (case Base64_decode rt (get_member messageData ''c'') of
          Inl e \<Rightarrow>
            (Inl (Decryption_failed e),
             \<lparr>sharedSecret_buffer = Some sharedSecret, chachaKey_buffer = Some chachaKey\<rparr>)
        | Inr messageCiphertext \<Rightarrow>
      (case ChaCha20Poly1305_decrypt rt chachaKey nonce messageCiphertext of
          Inl e \<Rightarrow>
            (Inl (Decryption_failed e),
             \<lparr>sharedSecret_buffer = Some sharedSecret, chachaKey_buffer = Some chachaKey\<rparr>)
        | Inr plaintext \<Rightarrow>
            (Inr (TextDecoder_decode rt plaintext),
             \<lparr>sharedSecret_buffer = Some (secureClear sharedSecret),
              chachaKey_buffer = Some (secureClear chachaKey)\<rparr>))))))))))))"

text \<open>
  \<open>isValidEncryptedMessage\<close>: here \<open>JSON.parse\<close> stands inside the one \<open>try\<close>, whose
  \<open>catch\<close> returns \<open>false\<close>.
\<close>

definition isValidEncryptedMessage_try :: "runtime \<Rightarrow> jsval \<Rightarrow> error + bool" where
  "isValidEncryptedMessage_try rt encryptedContent =
     (if \<not> truthy encryptedContent \<or> typeof encryptedContent \<noteq> ''string'' then Inr False
      else case JSON_parse rt (str_of encryptedContent) of
          None \<Rightarrow> Inl (Thrown ''SyntaxError'')
        | Some messageData \<Rightarrow>
            if nullish messageData then Inl (TypeError_reading ''v'')
            else Inr (has_required_fields messageData))"

definition isValidEncryptedMessage :: "runtime \<Rightarrow> jsval \<Rightarrow> error + bool" where
  "isValidEncryptedMessage rt encryptedContent =
     (case isValidEncryptedMessage_try rt encryptedContent of
        Inl e \<Rightarrow> Inr False
      | Inr b \<Rightarrow> Inr b)"

section \<open>What the statements assume of the runtime\<close>

text \<open>
  The bytes a call of \<open>encrypt\<close> that starts in world \<open>w\<close> draws: the randomness of
  \<open>encap\<close>, the salt and the nonce, in this order.
\<close>

definition encrypt_coins :: "world \<Rightarrow> bytes" where
  "encrypt_coins w = fst (getRandomBytes w 32)"

definition encrypt_salt :: "world \<Rightarrow> bytes" where
  "encrypt_salt w = fst (generateSalt (snd (getRandomBytes w 32)))"

definition encrypt_nonce :: "world \<Rightarrow> bytes" where
  "encrypt_nonce w = fst (generateNonce (snd (generateSalt (snd (getRandomBytes w 32)))))"

text \<open>
  Base64 is reversible, and the text of a non-empty array is made of Base64 characters
  and padding.
\<close>

definition Base64_contract :: "runtime \<Rightarrow> bool" where
  "Base64_contract rt \<longleftrightarrow>
     (\<forall>bs. Buffer_from_base64 rt (JStr (Buffer_toString_base64 rt bs)) = Inr bs)
     \<and> (\<forall>bs. bs \<noteq> [] \<longrightarrow> base64_regex_test (Buffer_toString_base64 rt bs))"

text \<open>
  \<open>JSON.parse\<close> gives back the envelope that \<open>JSON.stringify\<close> wrote, and rejects the
  empty text.
\<close>

definition JSON_contract :: "runtime \<Rightarrow> bool" where
  "JSON_contract rt \<longleftrightarrow>
     JSON_parse rt [] = None
     \<and> (\<forall>alg kem s n c t.
           JSON_parse rt (JSON_stringify rt (encryptedMessage (JStr alg) kem s n c t))
           = Some (encryptedMessage (JStr alg) kem s n c t))"

text \<open>
  The key-encapsulation contract: a generated key pair is not empty, encapsulation to
  its public key succeeds whatever randomness it draws, and decapsulation with its
  private key recovers the shared secret.
\<close>

definition KEM_contract :: "runtime \<Rightarrow> bool" where
  "KEM_contract rt \<longleftrightarrow>
     (\<forall>k seed pk sk. kem_generateKeyPair rt k seed = Inr (pk, sk) \<longrightarrow>
        pk \<noteq> [] \<and> sk \<noteq> []
        \<and> (\<forall>coins. \<exists>ct ss. kem_encap rt k pk coins = Inr (ct, ss) \<and> ct \<noteq> []
                          \<and> kem_decap rt k ct sk = Inr ss))"

text \<open>HKDF returns the 256 bits it is asked for.\<close>

definition HKDF_contract :: "runtime \<Rightarrow> bool" where
  "HKDF_contract rt \<longleftrightarrow>
     (\<forall>ikm salt info. \<exists>key. subtle_deriveBits_HKDF rt ikm salt info 256 = Inr key
                            \<and> length key = 32)"

text \<open>
  The cipher contract: with a 32-byte key, a 12-byte nonce and no associated data,
  sealing succeeds, the ciphertext (it holds the tag) is not empty, and opening it gives
  the plaintext back.
\<close>

definition AEAD_contract :: "runtime \<Rightarrow> bool" where
  "AEAD_contract rt \<longleftrightarrow>
     (\<forall>key nonce p. length key = 32 \<and> length nonce = 12 \<longrightarrow>
        (\<exists>c. chacha20poly1305_encrypt rt key nonce [] p = Inr c \<and> c \<noteq> []
             \<and> chacha20poly1305_decrypt rt key nonce [] c = Inr p))"

section \<open>A reference runtime\<close>

text \<open>
  Small executable stand-ins for the libraries, on which the model runs on concrete
  inputs: standard Base64 (the decoder reads the leading Base64 characters and ignores
  the padding), JSON for flat objects of strings, integers, booleans and \<open>null\<close>,
  strings as their UTF-8 bytes, and toy primitives: a key encapsulation with 4-byte
  (\<open>MlKem1024\<close>) and 3-byte (\<open>MlKem768\<close>) keys that checks the lengths it is given, a
  key derivation that mixes its inputs, and a cipher whose 16-byte tag is a checksum of
  key, nonce and ciphertext body.
\<close>

subsection \<open>Base64\<close>

definition b64_char :: "nat \<Rightarrow> char" where
  "b64_char i =
     (if i < 26 then char_of (i + 65) else if i < 52 then char_of (i + 71)
      else if i < 62 then char_of (i - 4) else if i = 62 then CHR ''+'' else CHR ''/'')"

definition b64_value :: "char \<Rightarrow> nat" where
  "b64_value ch =
     (if CHR ''A'' \<le> ch \<and> ch \<le> CHR ''Z'' then of_char ch - 65
      else if CHR ''a'' \<le> ch \<and> ch \<le> CHR ''z'' then of_char ch - 71
      else if CHR ''0'' \<le> ch \<and> ch \<le> CHR ''9'' then of_char ch + 4
      else if ch = CHR ''+'' then 62 else 63)"

fun bytes_to_sextets :: "bytes \<Rightarrow> nat list" where
  "bytes_to_sextets (a # b # c # rest) =
     [unat a div 4, unat a mod 4 * 16 + unat b div 16, unat b mod 16 * 4 + unat c div 64,
      unat c mod 64] @ bytes_to_sextets rest"
| "bytes_to_sextets [a, b] =
     [unat a div 4, unat a mod 4 * 16 + unat b div 16, unat b mod 16 * 4]"
| "bytes_to_sextets [a] = [unat a div 4, unat a mod 4 * 16]"
| "bytes_to_sextets [] = []"

fun sextets_to_bytes :: "nat list \<Rightarrow> bytes" where
  "sextets_to_bytes (p # q # r # s # rest) =
     [of_nat (p * 4 + q div 16), of_nat (q mod 16 * 16 + r div 4), of_nat (r mod 4 * 64 + s)]
     @ sextets_to_bytes rest"
| "sextets_to_bytes [p, q, r] = [of_nat (p * 4 + q div 16), of_nat (q mod 16 * 16 + r div 4)]"
| "sextets_to_bytes [p, q] = [of_nat (p * 4 + q div 16)]"
| "sextets_to_bytes [p] = []"
| "sextets_to_bytes [] = []"

definition demo_toString_base64 :: "bytes \<Rightarrow> string" where
  "demo_toString_base64 bs =
     map b64_char (bytes_to_sextets bs)
     @ (if length bs mod 3 = 1 then ''=='' else if length bs mod 3 = 2 then ''='' else [])"

text \<open>
  \<open>Buffer.from(x, 'base64')\<close> decodes a string, copies an array of numbers and throws
  on the other values of \<open>jsval\<close>.
\<close>

fun demo_from_base64 :: "jsval \<Rightarrow> string + bytes" where
  "demo_from_base64 (JStr s) = Inr (sextets_to_bytes (map b64_value (takeWhile base64_class s)))"
| "demo_from_base64 (JArr xs) = Inr (map (\<lambda>x. case x of JNum n \<Rightarrow> of_int n | _ \<Rightarrow> 0) xs)"
| "demo_from_base64 x = Inl ''The first argument must be of type string or an instance of Buffer''"

subsection \<open>Toy primitives\<close>

fun toy_size :: "kem \<Rightarrow> nat" where
  "toy_size MlKem1024 = 4"
| "toy_size MlKem768 = 3"

definition toy_public :: "bytes \<Rightarrow> bytes" where
  "toy_public sk = map (\<lambda>b. b + 1) sk"

definition toy_generateKeyPair :: "kem \<Rightarrow> bytes \<Rightarrow> string + (bytes \<times> bytes)" where
  "toy_generateKeyPair k coins =
     (if length coins < toy_size k then Inl ''not enough randomness''
      else Inr (toy_public (take (toy_size k) coins), take (toy_size k) coins))"

definition toy_encap :: "kem \<Rightarrow> bytes \<Rightarrow> bytes \<Rightarrow> string + (bytes \<times> bytes)" where
  "toy_encap k pk coins =
     (if length pk \<noteq> toy_size k then Inl ''invalid encapsulation key''
      else let m = take (toy_size k) (coins @ replicate (toy_size k) 0)
           in Inr (map2 (XOR) m pk, m))"

definition toy_decap :: "kem \<Rightarrow> bytes \<Rightarrow> bytes \<Rightarrow> string + bytes" where
  "toy_decap k ct sk =
     (if length ct \<noteq> toy_size k \<or> length sk \<noteq> toy_size k then Inl ''invalid ciphertext or key''
      else Inr (map2 (XOR) ct (toy_public sk)))"

definition toy_stretch :: "bytes \<Rightarrow> nat \<Rightarrow> bytes" where
  "toy_stretch xs n = map (\<lambda>i. if xs = [] then 0 else xs ! (i mod length xs)) [0..<n]"

definition toy_hkdf :: "bytes \<Rightarrow> bytes \<Rightarrow> bytes \<Rightarrow> nat \<Rightarrow> string + bytes" where
  "toy_hkdf ikm salt info bits =
     Inr (map2 (XOR) (toy_stretch ikm (bits div 8)) (toy_stretch (salt @ info) (bits div 8)))"

definition toy_tag :: "bytes \<Rightarrow> bytes \<Rightarrow> bytes \<Rightarrow> bytes \<Rightarrow> bytes" where
  "toy_tag key nonce aad body =
     replicate 16 (sum_list key + sum_list nonce + sum_list aad + sum_list body
                   + of_nat (length body))"

definition toy_seal :: "bytes \<Rightarrow> bytes \<Rightarrow> bytes \<Rightarrow> bytes \<Rightarrow> string + bytes" where
  "toy_seal key nonce aad plaintext =
     (if length key \<noteq> 32 \<or> length nonce \<noteq> 12 then Inl ''invalid key or nonce''
      else let body = map (\<lambda>b. b XOR hd key) plaintext
           in Inr (body @ toy_tag key nonce aad body))"

definition toy_open :: "bytes \<Rightarrow> bytes \<Rightarrow> bytes \<Rightarrow> bytes \<Rightarrow> string + bytes" where
  "toy_open key nonce aad ciphertext =
     (if length key \<noteq> 32 \<or> length nonce \<noteq> 12 then Inl ''invalid key or nonce''
      else if length ciphertext < 16 then Inl ''invalid tag''
      else let body = take (length ciphertext - 16) ciphertext
           in if drop (length ciphertext - 16) ciphertext = toy_tag key nonce aad body
              then Inr (map (\<lambda>b. b XOR hd key) body)
              else Inl ''invalid tag'')"

subsection \<open>Text\<close>

definition digit_char :: "int \<Rightarrow> char" where
  "digit_char d = char_of (48 + nat d)"

function show_digits :: "int \<Rightarrow> string" where
  "show_digits n =
     (if n < 10 then [digit_char n] else show_digits (n div 10) @ [digit_char (n mod 10)])"
  by pat_completeness auto
termination
  by (relation "measure nat") auto

definition show_int :: "int \<Rightarrow> string" where
  "show_int i = (if i < 0 then CHR ''-'' # show_digits (- i) else show_digits i)"

fun join_comma :: "string list \<Rightarrow> string" where
  "join_comma [] = []"
| "join_comma [x] = x"
| "join_comma (x # y # zs) = x @ CHR '','' # join_comma (y # zs)"

text \<open>\<open>String(x)\<close>, which \<open>TextEncoder.encode\<close> applies to its argument.\<close>

fun demo_ToString :: "jsval \<Rightarrow> string" where
  "demo_ToString JUndefined = ''undefined''"
| "demo_ToString JNull = ''null''"
| "demo_ToString (JBool b) = (if b then ''true'' else ''false'')"
| "demo_ToString (JNum n) = show_int n"
| "demo_ToString (JStr s) = s"
| "demo_ToString (JArr xs) =
     join_comma (map (\<lambda>x. if nullish x then [] else demo_ToString x) xs)"
| "demo_ToString (JObj fs) = ''[object Object]''"

definition demo_encode :: "jsval \<Rightarrow> bytes" where
  "demo_encode x = map (\<lambda>ch. of_nat (of_char ch)) (demo_ToString x)"

text \<open>
  \<open>TextDecoder.decode\<close> with the default options (\<open>ignoreBOM\<close> is \<open>false\<close>) drops a
  leading byte order mark, the three bytes \<open>EF BB BF\<close> of U+FEFF.
\<close>

definition utf8_bom :: bytes where
  "utf8_bom = [0xEF, 0xBB, 0xBF]"

definition demo_decode :: "bytes \<Rightarrow> string" where
  "demo_decode bs =
     map (\<lambda>b. char_of (unat b)) (if take 3 bs = utf8_bom then drop 3 bs else bs)"

subsection \<open>JSON for flat objects\<close>

definition double_quote :: char where
  "double_quote = CHR 0x22"

definition backslash :: char where
  "backslash = CHR 0x5C"

definition demo_escape :: "string \<Rightarrow> string" where
  "demo_escape s =
     concat (map (\<lambda>ch. if ch = double_quote \<or> ch = backslash then [backslash, ch] else [ch]) s)"

definition demo_quote :: "string \<Rightarrow> string" where
  "demo_quote s = double_quote # demo_escape s @ [double_quote]"

fun demo_value_text :: "jsval \<Rightarrow> string" where
  "demo_value_text (JStr s) = demo_quote s"
| "demo_value_text (JNum n) = show_int n"
| "demo_value_text (JBool b) = (if b then ''true'' else ''false'')"
| "demo_value_text x = ''null''"

fun demo_members_text :: "(string \<times> jsval) list \<Rightarrow> string" where
  "demo_members_text [] = []"
| "demo_members_text [(k, x)] = demo_quote k @ CHR '':'' # demo_value_text x"
| "demo_members_text ((k, x) # fs) =
     demo_quote k @ CHR '':'' # demo_value_text x @ CHR '','' # demo_members_text fs"

text \<open>\<open>JSON.stringify\<close> leaves out a property whose value is \<open>undefined\<close>.\<close>

fun demo_stringify :: "jsval \<Rightarrow> string" where
  "demo_stringify (JObj fs) =
     CHR ''{'' # demo_members_text (filter (\<lambda>(k, x). x \<noteq> JUndefined) fs) @ ''}''"
| "demo_stringify x = demo_value_text x"

fun read_string :: "string \<Rightarrow> (string \<times> string) option" where
  "read_string [] = None"
| "read_string (ch # cs) =
     (if ch = double_quote then Some ([], cs)
      else if ch = backslash then
        (case cs of [] \<Rightarrow> None
         | d # ds \<Rightarrow> (case read_string ds of None \<Rightarrow> None | Some (s, r) \<Rightarrow> Some (d # s, r)))
      else (case read_string cs of None \<Rightarrow> None | Some (s, r) \<Rightarrow> Some (ch # s, r)))"

definition is_digit :: "char \<Rightarrow> bool" where
  "is_digit ch = (CHR ''0'' \<le> ch \<and> ch \<le> CHR ''9'')"

definition read_digits :: "string \<Rightarrow> int" where
  "read_digits ds = foldl (\<lambda>acc ch. 10 * acc + int (of_char ch - 48)) 0 ds"

definition strip_prefix :: "string \<Rightarrow> string \<Rightarrow> string option" where
  "strip_prefix p s = (if take (length p) s = p then Some (drop (length p) s) else None)"

definition read_value :: "string \<Rightarrow> (jsval \<times> string) option" where
  "read_value s =
     (case s of
        [] \<Rightarrow> None
      | ch # cs \<Rightarrow>
          if ch = double_quote then
            (case read_string cs of None \<Rightarrow> None | Some (x, r) \<Rightarrow> Some (JStr x, r))
          else if is_digit ch then
            Some (JNum (read_digits (takeWhile is_digit s)), dropWhile is_digit s)
          else if ch = CHR ''-'' \<and> takeWhile is_digit cs \<noteq> [] then
            Some (JNum (- read_digits (takeWhile is_digit cs)), dropWhile is_digit cs)
          else (case strip_prefix ''null'' s of Some r \<Rightarrow> Some (JNull, r) | None \<Rightarrow>
               (case strip_prefix ''true'' s of Some r \<Rightarrow> Some (JBool True, r) | None \<Rightarrow>
               (case strip_prefix ''false'' s of Some r \<Rightarrow> Some (JBool False, r)
                | None \<Rightarrow> None))))"

text \<open>The members of an object, up to its closing brace; \<open>fuel\<close> bounds their number.\<close>

fun read_members :: "nat \<Rightarrow> string \<Rightarrow> (string \<times> jsval) list option" where
  "read_members 0 s = None"
| "read_members (Suc fuel) s =
     (case s of
        [] \<Rightarrow> None
      | ch # cs \<Rightarrow>
          if ch \<noteq> double_quote then None
          else (case read_string cs of
                  None \<Rightarrow> None
                | Some (k, r) \<Rightarrow>
                    (case r of
                       [] \<Rightarrow> None
                     | colon # r1 \<Rightarrow>
                         if colon \<noteq> CHR '':'' then None
                         else (case read_value r1 of
                                 None \<Rightarrow> None
                               | Some (x, r2) \<Rightarrow>
                                   if r2 = ''}'' then Some [(k, x)]
                                   else (case r2 of
                                           [] \<Rightarrow> None
                                         | comma # r3 \<Rightarrow>
                                             if comma \<noteq> CHR '','' then None
                                             else (case read_members fuel r3 of
                                                     None \<Rightarrow> None
                                                   | Some fs \<Rightarrow> Some ((k, x) # fs)))))))"

definition demo_parse :: "string \<Rightarrow> jsval option" where
  "demo_parse s =
     (case s of
        [] \<Rightarrow> None
      | ch # cs \<Rightarrow>
          if ch = CHR ''{'' then
            (if cs = ''}'' then Some (JObj [])
             else (case read_members (length cs) cs of
                     None \<Rightarrow> None
                   | Some fs \<Rightarrow> Some (JObj fs)))
          else (case read_value s of Some (x, []) \<Rightarrow> Some x | _ \<Rightarrow> None))"

text \<open>The values whose text the reader above reads back: strings and integers.\<close>

definition flat_value :: "jsval \<Rightarrow> bool" where
  "flat_value x \<longleftrightarrow> (\<exists>s. x = JStr s) \<or> (\<exists>i. x = JNum i)"

subsection \<open>The runtime and a world\<close>

definition demo_rt :: runtime where
  "demo_rt =
     \<lparr>JSON_parse = demo_parse, JSON_stringify = demo_stringify,
      Buffer_toString_base64 = demo_toString_base64, Buffer_from_base64 = demo_from_base64,
      TextEncoder_encode = demo_encode, TextDecoder_decode = demo_decode,
      kem_generateKeyPair = toy_generateKeyPair, kem_encap = toy_encap, kem_decap = toy_decap,
      subtle_deriveBits_HKDF = toy_hkdf,
      chacha20poly1305_encrypt = toy_seal, chacha20poly1305_decrypt = toy_open\<rparr>"

definition demo_world :: world where
  "demo_world = \<lparr>entropy = (\<lambda>i. of_nat (7 * i + 3)), drawn = 0, now = 1700000000000\<rparr>"


section \<open>Facts about the model\<close>

lemma length_getRandomBytes: "length (fst (getRandomBytes w n)) = n"
  by (simp add: getRandomBytes_def)

lemma now_getRandomBytes: "now (snd (getRandomBytes w n)) = now w"
  by (simp add: getRandomBytes_def)

lemma length_encrypt_salt: "length (encrypt_salt w) = 32"
  by (simp add: encrypt_salt_def generateSalt_def getRandomBytes_def)

lemma length_encrypt_nonce: "length (encrypt_nonce w) = 12"
  by (simp add: encrypt_nonce_def generateNonce_def getRandomBytes_def)


lemma base64_regex_test_nonempty: "base64_regex_test s \<Longrightarrow> s \<noteq> []"
  by (auto simp add: base64_regex_test_def)

text \<open>The path of \<open>encrypt\<close> on which nothing throws.\<close>

lemma encrypt_success:
  assumes msg: "truthy message \<or> message = JStr []"
    and pk: "base64_regex_test pk" "Buffer_from_base64 rt (JStr pk) = Inr pkb"
    and alg: "algorithm = default_arg (JStr ''ML-KEM-1024'') algorithm0"
    and encap: "kem_encap rt (if algorithm = JStr ''ML-KEM-768'' then MlKem768 else MlKem1024)
                  pkb (encrypt_coins w) = Inr (kct, ss)"
    and hkdf: "HKDF_derive rt ss (encrypt_salt w) ''ChaCha20-Poly1305'' 32 = Inr key"
    and seal: "ChaCha20Poly1305_encrypt rt key (encrypt_nonce w) (TextEncoder_encode rt message)
                 = Inr ct"
  shows "encrypt rt w message (JStr pk) algorithm0 =
           (Inr (JSON_stringify rt
                  (encryptedMessage algorithm (Base64_encode rt kct)
                     (Base64_encode rt (encrypt_salt w)) (Base64_encode rt (encrypt_nonce w))
                     (Base64_encode rt ct) (now w))),
            \<lparr>sharedSecret_buffer = Some (secureClear ss),
             chachaKey_buffer = Some (secureClear key)\<rparr>,
            snd (generateNonce (snd (generateSalt (snd (getRandomBytes w 32))))))"
proof -
  have ne: "pk \<noteq> []" using pk(1) by (rule base64_regex_test_nonempty)
  have n: "now (snd (generateNonce (snd (generateSalt (snd (getRandomBytes w 32)))))) = now w"
    by (simp add: generateNonce_def generateSalt_def now_getRandomBytes)
  show ?thesis
    using msg ne pk encap hkdf seal n
    unfolding encrypt_def alg[symmetric] Let_def
    by (auto simp add: Base64_decode_def encrypt_coins_def encrypt_salt_def encrypt_nonce_def)
qed


text \<open>\<open>decrypt\<close> from the structure test to the cipher's verdict.\<close>

lemma decrypt_steps:
  assumes nonempty: "text \<noteq> []" "sk \<noteq> []"
    and parse: "JSON_parse rt text = Some md" "\<not> nullish md" "has_required_fields md"
    and skb: "Buffer_from_base64 rt (JStr sk) = Inr skb"
    and kct: "Buffer_from_base64 rt (get_member md ''kem'') = Inr kct"
    and decap: "kem_decap rt
                  (if js_or (default_arg JNull algorithm0) (get_member md ''alg'') = JStr ''ML-KEM-768''
                   then MlKem768 else MlKem1024) kct skb = Inr ss"
    and salt: "Buffer_from_base64 rt (get_member md ''s'') = Inr salt"
    and hkdf: "HKDF_derive rt ss salt ''ChaCha20-Poly1305'' 32 = Inr key"
    and nonce: "Buffer_from_base64 rt (get_member md ''n'') = Inr nonce"
    and ct: "Buffer_from_base64 rt (get_member md ''c'') = Inr ct"
  shows "decrypt rt (JStr text) (JStr sk) algorithm0 =
           (case chacha20poly1305_decrypt rt key nonce [] ct of
              Inl msg \<Rightarrow>
                (Inl (Decryption_failed (ChaCha20_Poly1305_decryption_failed (Thrown msg))),
                 \<lparr>sharedSecret_buffer = Some ss, chachaKey_buffer = Some key\<rparr>)
            | Inr p \<Rightarrow>
                (Inr (TextDecoder_decode rt p),
                 \<lparr>sharedSecret_buffer = Some (secureClear ss),
                  chachaKey_buffer = Some (secureClear key)\<rparr>))"
  using assms
  unfolding decrypt_def Let_def
  by (simp add: Base64_decode_def ChaCha20Poly1305_decrypt_def split: sum.splits)

lemma Base64_contract_decode:
  "Base64_contract rt \<Longrightarrow> Buffer_from_base64 rt (JStr (Base64_encode rt bs)) = Inr bs"
  by (simp add: Base64_contract_def Base64_encode_def)

lemma Base64_contract_format:
  "Base64_contract rt \<Longrightarrow> bs \<noteq> [] \<Longrightarrow> base64_regex_test (Base64_encode rt bs)"
  by (simp add: Base64_contract_def Base64_encode_def)

lemma Base64_contract_nonempty:
  "Base64_contract rt \<Longrightarrow> bs \<noteq> [] \<Longrightarrow> Base64_encode rt bs \<noteq> []"
  by (rule base64_regex_test_nonempty) (rule Base64_contract_format)


lemma JSON_contract_parse:
  "JSON_contract rt \<Longrightarrow>
   JSON_parse rt (JSON_stringify rt (encryptedMessage (JStr alg) kem s n c t))
   = Some (encryptedMessage (JStr alg) kem s n c t)"
  by (simp add: JSON_contract_def)

lemma JSON_contract_nonempty:
  assumes "JSON_contract rt"
  shows "JSON_stringify rt (encryptedMessage (JStr alg) kem s n c t) \<noteq> []"
proof
  assume e: "JSON_stringify rt (encryptedMessage (JStr alg) kem s n c t) = []"
  note j = assms
  from j have "JSON_parse rt [] = None" by (simp add: JSON_contract_def)
  moreover from j have "JSON_parse rt (JSON_stringify rt (encryptedMessage (JStr alg) kem s n c t))
      = Some (encryptedMessage (JStr alg) kem s n c t)" by (simp add: JSON_contract_def)
  ultimately show False unfolding e by simp
qed

lemma get_member_encryptedMessage:
  "get_member (encryptedMessage a kem s n c t) ''v'' = JNum 3"
  "get_member (encryptedMessage a kem s n c t) ''alg'' = a"
  "get_member (encryptedMessage a kem s n c t) ''kem'' = JStr kem"
  "get_member (encryptedMessage a kem s n c t) ''s'' = JStr s"
  "get_member (encryptedMessage a kem s n c t) ''n'' = JStr n"
  "get_member (encryptedMessage a kem s n c t) ''c'' = JStr c"
  "get_member (encryptedMessage a kem s n c t) ''t'' = JNum t"
  "\<not> nullish (encryptedMessage a kem s n c t)"
  by (simp_all add: encryptedMessage_def)

lemma has_required_fields_encryptedMessage:
  "has_required_fields (encryptedMessage a kem s n c t)
   \<longleftrightarrow> truthy a \<and> kem \<noteq> [] \<and> s \<noteq> [] \<and> n \<noteq> [] \<and> c \<noteq> []"
  by (simp add: has_required_fields_def get_member_encryptedMessage)

lemma HKDF_contract_derive:
  assumes "HKDF_contract rt"
  shows "\<exists>key. HKDF_derive rt ikm salt info 32 = Inr key \<and> length key = 32"
proof -
  obtain key where "subtle_deriveBits_HKDF rt ikm salt (TextEncoder_encode rt (JStr info)) 256 = Inr key"
      "length key = 32"
    using assms unfolding HKDF_contract_def by blast
  then show ?thesis by (simp add: HKDF_derive_def)
qed

lemma AEAD_contract_seal:
  assumes "AEAD_contract rt" "length key = 32" "length nonce = 12"
  shows "\<exists>c. ChaCha20Poly1305_encrypt rt key nonce p = Inr c \<and> c \<noteq> []
            \<and> chacha20poly1305_decrypt rt key nonce [] c = Inr p"
proof -
  obtain c where "chacha20poly1305_encrypt rt key nonce [] p = Inr c" "c \<noteq> []"
      "chacha20poly1305_decrypt rt key nonce [] c = Inr p"
    using assms unfolding AEAD_contract_def by blast
  then show ?thesis by (simp add: ChaCha20Poly1305_encrypt_def)
qed

text \<open>Encryption to a generated public key, then decryption with its private key.\<close>

lemma roundtrip_core:
  assumes b64: "Base64_contract rt" and kem: "KEM_contract rt" and hk: "HKDF_contract rt"
    and aead: "AEAD_contract rt" and json: "JSON_contract rt"
    and keys: "kem_generateKeyPair rt (if A = ''ML-KEM-768'' then MlKem768 else MlKem1024) seed
               = Inr (pkb, skb)"
    and A: "A \<noteq> []"
    and override: "a = JUndefined \<or> a = JStr A"
    and codec: "TextDecoder_decode rt (TextEncoder_encode rt (JStr M)) = M"
  shows "\<exists>text bufs w'.
           encrypt rt w (JStr M) (JStr (Base64_encode rt pkb)) (JStr A) = (Inr text, bufs, w')
           \<and> decrypt rt (JStr text) (JStr (Base64_encode rt skb)) a
               = (Inr M, \<lparr>sharedSecret_buffer = sharedSecret_buffer bufs,
                           chachaKey_buffer = chachaKey_buffer bufs\<rparr>)"
proof -
  let ?K = "if A = ''ML-KEM-768'' then MlKem768 else MlKem1024"
  have ne: "pkb \<noteq> []" "skb \<noteq> []" using kem keys unfolding KEM_contract_def by blast+
  obtain kct ss where encap: "kem_encap rt ?K pkb (encrypt_coins w) = Inr (kct, ss)"
      and kct: "kct \<noteq> []" and decap: "kem_decap rt ?K kct skb = Inr ss"
    using kem keys unfolding KEM_contract_def by blast
  obtain key where key: "HKDF_derive rt ss (encrypt_salt w) ''ChaCha20-Poly1305'' 32 = Inr key"
      and lkey: "length key = 32"
    using HKDF_contract_derive[OF hk] by blast
  obtain ct where seal: "ChaCha20Poly1305_encrypt rt key (encrypt_nonce w)
                           (TextEncoder_encode rt (JStr M)) = Inr ct"
      and ct: "ct \<noteq> []"
      and opn: "chacha20poly1305_decrypt rt key (encrypt_nonce w) []  ct
                = Inr (TextEncoder_encode rt (JStr M))"
    using AEAD_contract_seal[OF aead lkey length_encrypt_nonce] by blast
  let ?env = "encryptedMessage (JStr A) (Base64_encode rt kct) (Base64_encode rt (encrypt_salt w))
                (Base64_encode rt (encrypt_nonce w)) (Base64_encode rt ct) (now w)"
  let ?text = "JSON_stringify rt ?env"
  have salt: "encrypt_salt w \<noteq> []" and nonce: "encrypt_nonce w \<noteq> []"
    using length_encrypt_salt[of w] length_encrypt_nonce[of w] by auto
  have enc: "encrypt rt w (JStr M) (JStr (Base64_encode rt pkb)) (JStr A) =
               (Inr ?text,
                \<lparr>sharedSecret_buffer = Some (secureClear ss),
                 chachaKey_buffer = Some (secureClear key)\<rparr>,
                snd (generateNonce (snd (generateSalt (snd (getRandomBytes w 32))))))"
    by (rule encrypt_success[where pkb = pkb and kct = kct and ss = ss and key = key])
       (use encap key seal in \<open>simp_all add: Base64_contract_format[OF b64 ne(1)]
          Base64_contract_decode[OF b64] default_arg_def\<close>)
  have alg: "js_or (default_arg JNull a) (JStr A) = JStr A"
    using override A by (auto simp add: js_or_def default_arg_def)
  have dec: "decrypt rt (JStr ?text) (JStr (Base64_encode rt skb)) a =
               (case chacha20poly1305_decrypt rt key (encrypt_nonce w) [] ct of
                  Inl msg \<Rightarrow>
                    (Inl (Decryption_failed (ChaCha20_Poly1305_decryption_failed (Thrown msg))),
                     \<lparr>sharedSecret_buffer = Some ss, chachaKey_buffer = Some key\<rparr>)
                | Inr p \<Rightarrow>
                    (Inr (TextDecoder_decode rt p),
                     \<lparr>sharedSecret_buffer = Some (secureClear ss),
                      chachaKey_buffer = Some (secureClear key)\<rparr>))"
    by (rule decrypt_steps[where md = ?env and skb = skb and kct = kct and salt = "encrypt_salt w"])
       (use decap key A alg in \<open>simp_all add: JSON_contract_nonempty[OF json]
          JSON_contract_parse[OF json] get_member_encryptedMessage
          has_required_fields_encryptedMessage Base64_contract_decode[OF b64]
          Base64_contract_nonempty[OF b64] ne kct salt nonce ct\<close>)
  have dec': "decrypt rt (JStr ?text) (JStr (Base64_encode rt skb)) a =
               (Inr M, \<lparr>sharedSecret_buffer = Some (secureClear ss),
                           chachaKey_buffer = Some (secureClear key)\<rparr>)"
    unfolding dec opn by (simp add: codec)
  show ?thesis
    by (rule exI[of _ ?text], intro exI conjI, rule enc) (simp add: dec')
qed

text \<open>
  Past the structure test, \<open>decrypt\<close> ends with the plaintext, with an exception of the
  runtime, or with the cipher's failure.
\<close>

lemma decrypt_after_structure_test:
  assumes "s \<noteq> []" "truthy privateKey" "typeof privateKey = ''string''"
    and "JSON_parse rt s = Some messageData" "\<not> nullish messageData"
    and "has_required_fields messageData"
  shows "(\<exists>plaintext. fst (decrypt rt (JStr s) privateKey algorithm) = Inr plaintext)
         \<or> (\<exists>msg. fst (decrypt rt (JStr s) privateKey algorithm)
                    = Inl (Decryption_failed (Thrown msg)))
         \<or> (\<exists>msg. fst (decrypt rt (JStr s) privateKey algorithm)
                    = Inl (Decryption_failed (ChaCha20_Poly1305_decryption_failed (Thrown msg))))"
  using assms
  unfolding decrypt_def Let_def
  by (simp add: Base64_decode_def HKDF_derive_def ChaCha20Poly1305_decrypt_def
      split: sum.splits)

text \<open>Before it, only the four input errors and the \<open>TypeError\<close> occur.\<close>

lemma decrypt_structure_test:
  assumes "s \<noteq> []" "truthy privateKey" "typeof privateKey = ''string''"
  shows "JSON_parse rt s = None \<Longrightarrow>
           decrypt rt (JStr s) privateKey algorithm
           = (Inl (Decryption_failed Invalid_encrypted_message_format), no_buffers)"
    and "JSON_parse rt s = Some messageData \<Longrightarrow> nullish messageData \<Longrightarrow>
           decrypt rt (JStr s) privateKey algorithm
           = (Inl (Decryption_failed (TypeError_reading ''v'')), no_buffers)"
    and "JSON_parse rt s = Some messageData \<Longrightarrow> \<not> nullish messageData \<Longrightarrow>
         \<not> has_required_fields messageData \<Longrightarrow>
           decrypt rt (JStr s) privateKey algorithm
           = (Inl (Decryption_failed Missing_required_fields), no_buffers)"
  using assms unfolding decrypt_def Let_def by simp_all


text \<open>What a call of \<open>generateKeyPair\<close> that returns has done.\<close>

lemma generateKeyPair_success:
  assumes "fst (generateKeyPair rt w0 (JStr S)) = Inr keyPair" "S \<in> set SUPPORTED_ALGORITHMS"
  shows "\<exists>pkb skb.
           kem_generateKeyPair rt (if S = ''ML-KEM-768'' then MlKem768 else MlKem1024)
             (fst (getRandomBytes w0 64)) = Inr (pkb, skb)
           \<and> keyPair = JObj [(''publicKey'', JStr (Base64_encode rt pkb)),
                             (''privateKey'', JStr (Base64_encode rt skb)),
                             (''algorithm'', JStr S)]"
  using assms
  by (auto simp add: generateKeyPair_def default_arg_def includes_algorithm_def
      SUPPORTED_ALGORITHMS_def Let_def split: sum.splits if_splits)


lemma b64_char_class: "i < 64 \<Longrightarrow> base64_class (b64_char i)"
  by (auto simp add: b64_char_def base64_class_def less_eq_char_def)

lemma b64_value_char: "i < 64 \<Longrightarrow> b64_value (b64_char i) = i"
  by (auto simp add: b64_char_def b64_value_def less_eq_char_def)

lemma unat_byte: "unat (a::byte) < 256"
  using unsigned_less[of a, where 'a=nat] by simp

lemma sextet_group1:
  fixes a b c :: nat
  assumes "a < 256" "b < 256" "c < 256"
  shows "a div 4 * 4 + (a mod 4 * 16 + b div 16) div 16 = a"
proof -
  have "b div 16 < 16" using assms by simp
  then have "(a mod 4 * 16 + b div 16) div 16 = a mod 4" by simp
  then show ?thesis by simp
qed

lemma sextet_group2:
  fixes a b c :: nat
  assumes "a < 256" "b < 256" "c < 256"
  shows  "(a mod 4 * 16 + b div 16) mod 16 * 16 + (b mod 16 * 4 + c div 64) div 4 = b"
proof -
  have "b div 16 < 16" using assms by simp
  then have 1: "(a mod 4 * 16 + b div 16) mod 16 = b div 16" by simp
  have "c div 64 < 4" using assms by simp
  then have 2: "(b mod 16 * 4 + c div 64) div 4 = b mod 16" by simp
  show ?thesis unfolding 1 2 by simp
qed

lemma sextet_group3:
  fixes a b c :: nat
  assumes "a < 256" "b < 256" "c < 256"
  shows "(b mod 16 * 4 + c div 64) mod 4 * 64 + c mod 64 = c"
proof -
  have "c div 64 < 4" using assms by simp
  then have 1: "(b mod 16 * 4 + c div 64) mod 4 = c div 64" by simp
  show ?thesis unfolding 1 by simp
qed

lemma lt1: fixes a b c :: nat assumes "a < 256" "b < 256" "c < 256"
  shows "a div 4 < 64" "a mod 4 * 16 + b div 16 < 64" "b mod 16 * 4 + c div 64 < 64" "c mod 64 < 64" "b mod 16 * 4 < 64" "a mod 4 * 16 < 64"
proof -
  have "a mod 4 < 4" "b mod 16 < 16" "b div 16 < 16" "c div 64 < 4" using assms by simp_all
  then show "a div 4 < 64" "a mod 4 * 16 + b div 16 < 64" "b mod 16 * 4 + c div 64 < 64" "c mod 64 < 64" "b mod 16 * 4 < 64" "a mod 4 * 16 < 64"
    using assms by simp_all
qed

lemma sextets_lt: "x \<in> set (bytes_to_sextets bs) \<Longrightarrow> x < 64"
proof (induction bs arbitrary: x rule: bytes_to_sextets.induct)
  case (1 a b c rest)
  have lt: "unat a < 256" "unat b < 256" "unat c < 256" by (rule unat_byte)+
  show ?case using 1 lt1[OF lt] by auto
next
  case (2 a b)
  have lt: "unat a < 256" "unat b < 256" "unat b < 256" by (rule unat_byte)+
  show ?case using 2 lt1[OF lt] by auto
next
  case (3 a)
  have lt: "unat a < 256" "unat a < 256" "unat a < 256" by (rule unat_byte)+
  show ?case using 3 lt1[OF lt] by auto
qed simp

lemma sextets_roundtrip: "sextets_to_bytes (bytes_to_sextets bs) = bs"
proof (induction bs rule: bytes_to_sextets.induct)
  case (1 a b c rest)
  have lt: "unat a < 256" "unat b < 256" "unat c < 256" by (rule unat_byte)+
  show ?case
    using 1 sextet_group1[OF lt] sextet_group2[OF lt] sextet_group3[OF lt] by simp
next
  case (2 a b)
  have lt: "unat a < 256" "unat b < 256" "(0::nat) < 256" by (rule unat_byte)+ simp
  show ?case using sextet_group1[OF lt] sextet_group2[OF lt] by simp
next
  case (3 a)
  have lt: "unat a < 256" "(0::nat) < 256" "(0::nat) < 256" by (rule unat_byte)+ simp_all
  show ?case using sextet_group1[OF lt] by simp
qed simp

lemma base64_class_pad: "\<not> base64_class (CHR ''='')"
  by (simp add: base64_class_def)

lemma takeWhile_b64:
  "(\<And>x. x \<in> set xs \<Longrightarrow> x < 64) \<Longrightarrow> list_all (\<lambda>ch. ch = CHR ''='') pad \<Longrightarrow>
   takeWhile base64_class (map b64_char xs @ pad) = map b64_char xs"
  by (induction xs) (simp_all add: b64_char_class, cases pad, simp_all add: base64_class_pad)

lemma dropWhile_b64:
  "(\<And>x. x \<in> set xs \<Longrightarrow> x < 64) \<Longrightarrow> list_all (\<lambda>ch. ch = CHR ''='') pad \<Longrightarrow>
   dropWhile base64_class (map b64_char xs @ pad) = pad"
  by (induction xs) (simp_all add: b64_char_class, cases pad, simp_all add: base64_class_pad)

lemma demo_base64_roundtrip: "demo_from_base64 (JStr (demo_toString_base64 bs)) = Inr bs"
proof -
  have "map b64_value (map b64_char (bytes_to_sextets bs)) = bytes_to_sextets bs"
    using sextets_lt by (simp add: map_idI b64_value_char)
  then show ?thesis
    using takeWhile_b64[of "bytes_to_sextets bs"] sextets_lt
    by (simp add: demo_toString_base64_def sextets_roundtrip)
qed

lemma sextets_nonempty: "bs \<noteq> [] \<Longrightarrow> bytes_to_sextets bs \<noteq> []"
  by (induction bs rule: bytes_to_sextets.induct) simp_all

lemma demo_base64_format: "bs \<noteq> [] \<Longrightarrow> base64_regex_test (demo_toString_base64 bs)"
  using takeWhile_b64[of "bytes_to_sextets bs"] dropWhile_b64[of "bytes_to_sextets bs"]
    sextets_lt sextets_nonempty[of bs]
  by (simp add: demo_toString_base64_def base64_regex_test_def list_all_iff)

text \<open>The decoder reads Base64 text with any number of padding characters after it.\<close>

lemma demo_base64_surplus_padding:
  assumes "list_all (\<lambda>ch. ch = CHR ''='') pad"
  shows "demo_from_base64 (JStr (demo_toString_base64 bs @ pad)) = Inr bs"
    and "bs \<noteq> [] \<Longrightarrow> base64_regex_test (demo_toString_base64 bs @ pad)"
proof -
  let ?own = "if length bs mod 3 = 1 then ''=='' else if length bs mod 3 = 2 then ''='' else []"
  have all: "list_all (\<lambda>ch. ch = CHR ''='') (?own @ pad)" using assms by simp
  have tw: "takeWhile base64_class (map b64_char (bytes_to_sextets bs) @ ?own @ pad)
            = map b64_char (bytes_to_sextets bs)"
    using takeWhile_b64[OF _ all, of "bytes_to_sextets bs"] sextets_lt by blast
  have dw: "dropWhile base64_class (map b64_char (bytes_to_sextets bs) @ ?own @ pad) = ?own @ pad"
    using dropWhile_b64[OF _ all, of "bytes_to_sextets bs"] sextets_lt by blast
  have v: "map b64_value (map b64_char (bytes_to_sextets bs)) = bytes_to_sextets bs"
    using sextets_lt by (simp add: map_idI b64_value_char)
  have shape: "demo_toString_base64 bs @ pad = map b64_char (bytes_to_sextets bs) @ ?own @ pad"
    by (simp add: demo_toString_base64_def)
  show "demo_from_base64 (JStr (demo_toString_base64 bs @ pad)) = Inr bs"
    unfolding shape demo_from_base64.simps tw v sextets_roundtrip ..
  show "base64_regex_test (demo_toString_base64 bs @ pad)" if "bs \<noteq> []"
    unfolding shape base64_regex_test_def tw dw
    using sextets_nonempty[OF that] all by simp
qed

declare show_digits.simps [simp del]

lemma Base64_contract_demo: "Base64_contract demo_rt"
  unfolding Base64_contract_def demo_rt_def
  using demo_base64_roundtrip demo_base64_format by simp

subsection \<open>The toy primitives keep their contracts\<close>

lemma map2_xor_cancel:
  "length (m :: bytes) = length pk \<Longrightarrow> map2 (XOR) (map2 (XOR) m pk) pk = m"
proof (induction m arbitrary: pk)
  case Nil
  then show ?case by simp
next
  case (Cons a m)
  then obtain b pk' where "pk = b # pk'" by (cases pk) auto
  with Cons show ?case by (simp add: xor.assoc)
qed

lemma KEM_contract_demo: "KEM_contract demo_rt"
proof -
  have "pk \<noteq> [] \<and> sk \<noteq> []
        \<and> (\<forall>coins. \<exists>ct ss. toy_encap k pk coins = Inr (ct, ss) \<and> ct \<noteq> []
                          \<and> toy_decap k ct sk = Inr ss)"
    if gen: "toy_generateKeyPair k seed = Inr (pk, sk)" for k seed pk sk
  proof -
    have sz: "0 < toy_size k" by (cases k) simp_all
    from gen have len: "toy_size k \<le> length seed" and sk: "sk = take (toy_size k) seed"
      and pk: "pk = toy_public sk"
      by (auto simp add: toy_generateKeyPair_def split: if_splits)
    have lsk: "length sk = toy_size k" using len sk by simp
    have lpk: "length pk = toy_size k" using lsk pk by (simp add: toy_public_def)
    have ne: "pk \<noteq> []" "sk \<noteq> []" using sz lsk lpk by auto
    have enc: "\<exists>ct ss. toy_encap k pk coins = Inr (ct, ss) \<and> ct \<noteq> []
                 \<and> toy_decap k ct sk = Inr ss" for coins
    proof -
      let ?m = "take (toy_size k) (coins @ replicate (toy_size k) 0)"
      have lm: "length ?m = toy_size k" by simp
      have lct: "length (map2 (XOR) ?m pk) = toy_size k" using lm lpk by simp
      have "map2 (XOR) (map2 (XOR) ?m pk) pk = ?m"
        by (rule map2_xor_cancel) (simp add: lpk)
      then have "toy_decap k (map2 (XOR) ?m pk) sk = Inr ?m"
        using lct lsk pk unfolding toy_decap_def by simp
      moreover have "toy_encap k pk coins = Inr (map2 (XOR) ?m pk, ?m)"
        using lpk by (simp add: toy_encap_def Let_def)
      moreover have "map2 (XOR) ?m pk \<noteq> []" using lct sz by auto
      ultimately show ?thesis by blast
    qed
    show ?thesis using ne enc by blast
  qed
  then show ?thesis by (simp add: KEM_contract_def demo_rt_def)
qed

lemma HKDF_contract_demo: "HKDF_contract demo_rt"
  by (simp add: HKDF_contract_def demo_rt_def toy_hkdf_def toy_stretch_def)

lemma toy_open_seal:
  assumes "length key = 32" "length nonce = 12"
  shows "\<exists>c. toy_seal key nonce aad p = Inr c \<and> c \<noteq> [] \<and> toy_open key nonce aad c = Inr p"
proof -
  let ?body = "map (\<lambda>b. b XOR hd key) p"
  let ?c = "?body @ toy_tag key nonce aad ?body"
  have lt: "length (toy_tag key nonce aad ?body) = 16" by (simp add: toy_tag_def)
  have seal: "toy_seal key nonce aad p = Inr ?c" using assms by (simp add: toy_seal_def Let_def)
  have ne: "?c \<noteq> []" using lt by auto
  have "map (\<lambda>b. b XOR hd key) ?body = p" by (simp add: o_def xor.assoc map_idI)
  then have "toy_open key nonce aad ?c = Inr p"
    using assms lt by (simp add: toy_open_def Let_def)
  with seal ne show ?thesis by blast
qed

lemma AEAD_contract_demo: "AEAD_contract demo_rt"
  using toy_open_seal by (simp add: AEAD_contract_def demo_rt_def)

lemma demo_text_codec:
  assumes "take 3 (TextEncoder_encode demo_rt (JStr M)) \<noteq> utf8_bom"
  shows "TextDecoder_decode demo_rt (TextEncoder_encode demo_rt (JStr M)) = M"
  using assms
  by (simp add: demo_rt_def demo_decode_def demo_encode_def o_def unat_of_nat map_idI)

subsection \<open>The flat JSON codec reads back what it writes\<close>

lemma digit_char_props:
  assumes "0 \<le> d" "d < 10"
  shows "is_digit (digit_char d)" and "int (of_char (digit_char d) - 48) = d"
proof -
  have "nat d < 10" using assms by simp
  then have m: "(48 + nat d) mod 256 = 48 + nat d" by simp
  show "is_digit (digit_char d)"
    using \<open>nat d < 10\<close> by (simp add: is_digit_def digit_char_def less_eq_char_def m)
  show "int (of_char (digit_char d) - 48) = d"
    using assms by (simp add: digit_char_def m)
qed

lemma show_digits_nonempty: "show_digits n \<noteq> []"
  by (subst show_digits.simps) simp

lemma show_digits_digits: "0 \<le> n \<Longrightarrow> ch \<in> set (show_digits n) \<Longrightarrow> is_digit ch"
proof (induction n arbitrary: ch rule: show_digits.induct)
  case (1 n)
  show ?case
  proof (cases "n < 10")
    case True
    with 1 show ?thesis by (subst (asm) (2) show_digits.simps) (simp add: digit_char_props)
  next
    case False
    have d: "is_digit (digit_char (n mod 10))" by (rule digit_char_props) simp_all
    have "0 \<le> n div 10" using 1(2) by simp
    with 1 False d show ?thesis by (subst (asm) (2) show_digits.simps) auto
  qed
qed

lemma foldl_show_digits:
  "0 \<le> n \<Longrightarrow>
   foldl (\<lambda>acc ch. 10 * acc + int (of_char ch - 48)) a (show_digits n)
   = a * 10 ^ length (show_digits n) + n"
proof (induction n arbitrary: a rule: show_digits.induct)
  case (1 n)
  show ?case
  proof (cases "n < 10")
    case True
    with 1(2) show ?thesis by (subst (1 2) show_digits.simps) (simp add: digit_char_props)
  next
    case False
    have d: "int (of_char (digit_char (n mod 10)) - 48) = n mod 10"
      by (rule digit_char_props) simp_all
    have nn: "0 \<le> n div 10" using 1(2) by simp
    have ih: "foldl (\<lambda>acc ch. 10 * acc + int (of_char ch - 48)) a (show_digits (n div 10))
              = a * 10 ^ length (show_digits (n div 10)) + n div 10"
      using 1(1)[OF False nn] .
    have s: "show_digits n = show_digits (n div 10) @ [digit_char (n mod 10)]"
      using False by (subst show_digits.simps) simp
    let ?f = "\<lambda>acc ch. 10 * acc + int (of_char ch - 48)"
    have "foldl ?f a (show_digits n)
          = 10 * foldl ?f a (show_digits (n div 10)) + int (of_char (digit_char (n mod 10)) - 48)"
      unfolding s by simp
    also have "\<dots> = 10 * (a * 10 ^ length (show_digits (n div 10)) + n div 10) + n mod 10"
      by (simp only: ih d)
    also have "\<dots> = a * 10 ^ length (show_digits n) + (10 * (n div 10) + n mod 10)"
      unfolding s by (simp add: algebra_simps)
    also have "10 * (n div 10) + n mod 10 = n" by simp
    finally show ?thesis .
  qed
qed

lemma read_digits_show_digits: "0 \<le> n \<Longrightarrow> read_digits (show_digits n) = n"
  by (simp add: read_digits_def foldl_show_digits)

lemma span_digits:
  assumes "0 \<le> n" "rest = [] \<or> \<not> is_digit (hd rest)"
  shows "takeWhile is_digit (show_digits n @ rest) = show_digits n"
    and "dropWhile is_digit (show_digits n @ rest) = rest"
proof -
  have all: "\<And>ch. ch \<in> set (show_digits n) \<Longrightarrow> is_digit ch"
    using assms(1) show_digits_digits by blast
  have r: "takeWhile is_digit rest = []" "dropWhile is_digit rest = rest"
    using assms(2) by (cases rest; simp)+
  show "takeWhile is_digit (show_digits n @ rest) = show_digits n"
    using all r by (simp add: takeWhile_append2)
  show "dropWhile is_digit (show_digits n @ rest) = rest"
    using all r by (simp add: dropWhile_append2)
qed

lemma read_string_escape:
  "read_string (demo_escape s @ double_quote # rest) = Some (s, rest)"
  by (induction s) (auto simp add: demo_escape_def double_quote_def backslash_def)

lemma demo_quote_escape: "demo_quote s = double_quote # demo_escape s @ [double_quote]"
  by (simp add: demo_quote_def)

lemma read_value_string:
  "read_value (demo_quote s @ rest) = Some (JStr s, rest)"
  by (simp add: read_value_def demo_quote_escape read_string_escape)

lemma not_digit_quote: "\<not> is_digit double_quote" "\<not> is_digit (CHR ''-'')"
  by (simp_all add: is_digit_def double_quote_def)

lemma read_value_number:
  assumes "rest = [] \<or> \<not> is_digit (hd rest)"
  shows "read_value (show_int i @ rest) = Some (JNum i, rest)"
proof (cases "i < 0")
  case False
  then have nn: "0 \<le> i" by simp
  obtain ch cs where s: "show_digits i = ch # cs"
    using show_digits_nonempty[of i] by (cases "show_digits i") auto
  have dg: "is_digit ch" using show_digits_digits[OF nn, of ch] s by simp
  have ndq: "ch \<noteq> double_quote" using dg not_digit_quote by auto
  have "read_value (show_digits i @ rest)
        = Some (JNum (read_digits (takeWhile is_digit (show_digits i @ rest))),
                dropWhile is_digit (show_digits i @ rest))"
    unfolding s using dg ndq by (simp add: read_value_def)
  then show ?thesis
    using False by (simp add: show_int_def span_digits[OF nn assms] read_digits_show_digits[OF nn])
next
  case True
  then have nn: "0 \<le> - i" by simp
  have ne: "show_digits (- i) \<noteq> []" by (rule show_digits_nonempty)
  have "read_value (CHR ''-'' # show_digits (- i) @ rest)
        = Some (JNum (- read_digits (takeWhile is_digit (show_digits (- i) @ rest))),
                dropWhile is_digit (show_digits (- i) @ rest))"
    using ne not_digit_quote by (simp add: read_value_def span_digits[OF nn assms] double_quote_def)
  then show ?thesis
    using True by (simp add: show_int_def span_digits[OF nn assms] read_digits_show_digits[OF nn])
qed

lemma read_value_flat:
  assumes "flat_value x" "rest = CHR '','' # r \<or> rest = ''}''"
  shows "read_value (demo_value_text x @ rest) = Some (x, rest)"
proof -
  have nd: "rest = [] \<or> \<not> is_digit (hd rest)"
    using assms(2) by (auto simp add: is_digit_def)
  show ?thesis
    using assms(1) read_value_number[OF nd] read_value_string
    by (auto simp add: flat_value_def)
qed

lemma length_members_text: "length fs \<le> length (demo_members_text fs)"
  by (induction fs rule: demo_members_text.induct) (simp_all add: demo_quote_escape)

lemma members_text_nonempty: "fs \<noteq> [] \<Longrightarrow> \<exists>r. demo_members_text fs = double_quote # r"
  by (induction fs rule: demo_members_text.induct) (simp_all add: demo_quote_escape)

lemma read_members_text:
  assumes "fs \<noteq> []" "\<And>k x. (k, x) \<in> set fs \<Longrightarrow> flat_value x" "length fs \<le> fuel"
  shows "read_members fuel (demo_members_text fs @ ''}'') = Some fs"
  using assms
proof (induction fs arbitrary: fuel rule: demo_members_text.induct)
  case 1
  then show ?case by simp
next
  case (2 k x)
  then obtain f where fuel: "fuel = Suc f" by (cases fuel) auto
  have flat: "flat_value x" by (rule 2(2)[of k x]) simp
  have rv: "read_value (demo_value_text x @ ''}'') = Some (x, ''}'')"
    by (rule read_value_flat[OF flat]) simp
  show ?case
    unfolding fuel by (simp add: demo_quote_escape read_string_escape rv)
next
  case (3 k x p ps)
  then obtain f where fuel: "fuel = Suc f" and f: "length (p # ps) \<le> f" by (cases fuel) auto
  have flat: "flat_value x" by (rule 3(3)[of k x]) simp
  let ?rest = "CHR '','' # demo_members_text (p # ps) @ ''}''"
  have rv: "read_value (demo_value_text x @ ?rest) = Some (x, ?rest)"
    by (rule read_value_flat[OF flat]) simp
  have ih: "read_members f (demo_members_text (p # ps) @ ''}'') = Some (p # ps)"
    by (rule 3(1)) (use 3(3) f in auto)
  show ?case
    unfolding fuel by (simp add: demo_quote_escape read_string_escape rv ih)
qed

lemma demo_parse_stringify_flat:
  assumes "fs \<noteq> []" "\<And>k x. (k, x) \<in> set fs \<Longrightarrow> flat_value x"
  shows "demo_parse (demo_stringify (JObj fs)) = Some (JObj fs)"
proof -
  have keep: "filter (\<lambda>(k, x). x \<noteq> JUndefined) fs = fs"
    using assms(2) by (auto simp add: filter_id_conv flat_value_def)
  obtain r where r: "demo_members_text fs = double_quote # r"
    using members_text_nonempty[OF assms(1)] by blast
  have ne: "demo_members_text fs @ ''}'' \<noteq> ''}''" unfolding r by simp
  have fuel: "length fs \<le> length (demo_members_text fs @ ''}'')"
    using length_members_text[of fs] by simp
  have "read_members (length (demo_members_text fs @ ''}'')) (demo_members_text fs @ ''}'') = Some fs"
    by (rule read_members_text[OF assms fuel])
  then show ?thesis
    using ne by (simp add: keep demo_parse_def)
qed

lemma JSON_contract_demo: "JSON_contract demo_rt"
proof -
  have "demo_parse (demo_stringify (encryptedMessage (JStr alg) kem s n c t))
        = Some (encryptedMessage (JStr alg) kem s n c t)" for alg kem s n c t
    unfolding encryptedMessage_def
    by (rule demo_parse_stringify_flat) (auto simp add: flat_value_def)
  then show ?thesis
    by (simp add: JSON_contract_def demo_rt_def demo_parse_def)
qed

lemma demo_decode_encode: "Base64_decode demo_rt (JStr (Base64_encode demo_rt bs)) = Inr bs"
  using Base64_contract_decode[OF Base64_contract_demo] by (simp add: Base64_decode_def)


subsection \<open>One encryption on the reference runtime, stage by stage\<close>

text \<open>
  The key pair is the one \<open>generateKeyPair\<close> returns in \<open>demo_world\<close> for ML-KEM-1024:
  public key \<open>BAsSGQ==\<close>, private key \<open>AwoRGA==\<close>.  The message is \<open>Hi\<close>.
\<close>

lemma demo_public_key:
  "base64_regex_test ''BAsSGQ==''"
  "Buffer_from_base64 demo_rt (JStr ''BAsSGQ=='') = Inr [4, 11, 18, 25]"
  by code_simp+


lemma demo_encap:
  "kem_encap demo_rt MlKem1024 [4, 11, 18, 25] (encrypt_coins demo_world)
   = Inr ([7, 1, 3, 1], [3, 10, 17, 24])"
  by code_simp

lemma demo_key:
  "HKDF_derive demo_rt [3, 10, 17, 24] (encrypt_salt demo_world) ''ChaCha20-Poly1305'' 32
   = Inr [224, 224, 224, 224, 252, 12, 28, 12, 24, 40, 56, 40, 52, 52, 84, 84, 80, 80, 112, 112,
          108, 124, 108, 156, 136, 152, 136, 184, 164, 164, 164, 164]"
  by code_simp


lemma demo_fields:
  "Base64_encode demo_rt [7, 1, 3, 1] = ''BwEDAQ==''"
  "Base64_encode demo_rt (encrypt_salt demo_world)
   = ''4+rx+P8GDRQbIikwNz5FTFNaYWhvdn2Ei5KZoKeutbw=''"
  "Base64_encode demo_rt (encrypt_nonce demo_world) = ''w8rR2N/m7fT7AgkQ''"
  "Base64_encode demo_rt
     [168, 137, 229, 229, 229, 229, 229, 229, 229, 229, 229, 229, 229, 229, 229, 229, 229, 229]
   = ''qInl5eXl5eXl5eXl5eXl5eXl''"
  "now demo_world = 1700000000000"
  by code_simp+


text \<open>The same call for any message, from what the cipher returns for it.\<close>

lemma demo_encrypt_message:
  assumes "ChaCha20Poly1305_encrypt demo_rt
     [224, 224, 224, 224, 252, 12, 28, 12, 24, 40, 56, 40, 52, 52, 84, 84, 80, 80, 112, 112,
      108, 124, 108, 156, 136, 152, 136, 184, 164, 164, 164, 164]
     (encrypt_nonce demo_world) (TextEncoder_encode demo_rt (JStr M)) = Inr sealed"
  shows "fst (encrypt demo_rt demo_world (JStr M) (JStr ''BAsSGQ=='') (JStr ''ML-KEM-1024''))
         = Inr (JSON_stringify demo_rt
                  (encryptedMessage (JStr ''ML-KEM-1024'') ''BwEDAQ==''
                     ''4+rx+P8GDRQbIikwNz5FTFNaYWhvdn2Ei5KZoKeutbw='' ''w8rR2N/m7fT7AgkQ''
                     (Base64_encode demo_rt sealed) 1700000000000))"
proof -
  have "encrypt demo_rt demo_world (JStr M) (JStr ''BAsSGQ=='') (JStr ''ML-KEM-1024'') =
           (Inr (JSON_stringify demo_rt
                  (encryptedMessage (JStr ''ML-KEM-1024'') (Base64_encode demo_rt [7, 1, 3, 1])
                     (Base64_encode demo_rt (encrypt_salt demo_world))
                     (Base64_encode demo_rt (encrypt_nonce demo_world))
                     (Base64_encode demo_rt sealed)
                     (now demo_world))),
            \<lparr>sharedSecret_buffer = Some (secureClear [3, 10, 17, 24]),
             chachaKey_buffer = Some (secureClear
               [224, 224, 224, 224, 252, 12, 28, 12, 24, 40, 56, 40, 52, 52, 84, 84, 80, 80, 112,
                112, 108, 124, 108, 156, 136, 152, 136, 184, 164, 164, 164, 164])\<rparr>,
            snd (generateNonce (snd (generateSalt (snd (getRandomBytes demo_world 32))))))"
    by (rule encrypt_success[where pkb = "[4, 11, 18, 25]"])
       (simp_all add: demo_public_key demo_encap demo_key assms default_arg_def)
  then show ?thesis by (simp only: demo_fields fst_conv)
qed


subsection \<open>The same encryption in the second world\<close>






subsection \<open>Decryption of that envelope, stage by stage\<close>

lemma demo_decrypt_stages:
  "Buffer_from_base64 demo_rt (JStr ''AwoRGA=='') = Inr [3, 10, 17, 24]"
  "Buffer_from_base64 demo_rt (JStr ''BwEDAQ=='') = Inr [7, 1, 3, 1]"
  "kem_decap demo_rt MlKem1024 [7, 1, 3, 1] [3, 10, 17, 24] = Inr [3, 10, 17, 24]"
  "Buffer_from_base64 demo_rt (JStr ''4+rx+P8GDRQbIikwNz5FTFNaYWhvdn2Ei5KZoKeutbw='')
   = Inr (encrypt_salt demo_world)"
  "Buffer_from_base64 demo_rt (JStr ''w8rR2N/m7fT7AgkQ'') = Inr (encrypt_nonce demo_world)"
  by code_simp+

text \<open>
  The last five characters of the field \<open>c\<close> replaced by \<open>XXXXX\<close>, as the package's
  test of a tampered ciphertext does.
\<close>

lemma demo_tampered:
  "JSON_parse demo_rt ''{\"v\":3,\"alg\":\"ML-KEM-1024\",\"kem\":\"BwEDAQ==\",\"s\":\"4+rx+P8GDRQbIikwNz5FTFNaYWhvdn2Ei5KZoKeutbw=\",\"n\":\"w8rR2N/m7fT7AgkQ\",\"c\":\"qInl5eXl5eXl5eXl5eXXXXXX\",\"t\":1700000000000}''
   = Some (encryptedMessage (JStr ''ML-KEM-1024'') ''BwEDAQ==''
             ''4+rx+P8GDRQbIikwNz5FTFNaYWhvdn2Ei5KZoKeutbw='' ''w8rR2N/m7fT7AgkQ''
             ''qInl5eXl5eXl5eXl5eXXXXXX'' 1700000000000)"
  "Buffer_from_base64 demo_rt (JStr ''qInl5eXl5eXl5eXl5eXXXXXX'')
   = Inr [168, 137, 229, 229, 229, 229, 229, 229, 229, 229, 229, 229, 229, 229, 215, 93, 117,
          215]"
  "chacha20poly1305_decrypt demo_rt
     [224, 224, 224, 224, 252, 12, 28, 12, 24, 40, 56, 40, 52, 52, 84, 84, 80, 80, 112, 112,
      108, 124, 108, 156, 136, 152, 136, 184, 164, 164, 164, 164]
     (encrypt_nonce demo_world) []
     [168, 137, 229, 229, 229, 229, 229, 229, 229, 229, 229, 229, 229, 229, 215, 93, 117, 215]
   = Inl ''invalid tag''"
  by code_simp+

subsection \<open>The key pairs generated in \<open>demo_world\<close>\<close>

lemma demo_keys_1024:
  "fst (generateKeyPair demo_rt demo_world (JStr ''ML-KEM-1024''))
   = Inr (JObj [(''publicKey'', JStr ''BAsSGQ==''), (''privateKey'', JStr ''AwoRGA==''),
                (''algorithm'', JStr ''ML-KEM-1024'')])"
  by code_simp

lemma demo_keys_768:
  "fst (generateKeyPair demo_rt demo_world (JStr ''ML-KEM-768''))
   = Inr (JObj [(''publicKey'', JStr ''BAsS''), (''privateKey'', JStr ''AwoR''),
                (''algorithm'', JStr ''ML-KEM-768'')])"
  by code_simp


section \<open>Key pairs: export, import, validation\<close>

lemma get_member_is_string_object:
  "get_member K k = JStr s \<Longrightarrow> \<exists>fs. K = JObj fs"
  by (cases K) simp_all

lemma map_of_delete_other: "k \<noteq> k' \<Longrightarrow> map_of (AList.delete k fs) k' = map_of fs k'"
  by (induction fs) auto

text \<open>
  \<^bold>\<open>C6.\<close>  Let \<open>K\<close> be a key pair whose \<open>publicKey\<close> and \<open>privateKey\<close> are non-empty
  strings.  \<open>exportKeyPair\<close> returns a record; when \<open>K\<close>'s \<open>algorithm\<close> is one of the
  supported names, \<open>importKeyPair\<close> of that record is the object with exactly \<open>K\<close>'s
  \<open>publicKey\<close>, \<open>privateKey\<close> and \<open>algorithm\<close>; and whatever \<open>K\<close>'s \<open>algorithm\<close> was,
  \<open>importKeyPair\<close> of the record with its \<open>algorithm\<close> property deleted is the object
  with \<open>K\<close>'s two keys and the algorithm \<open>ML-KEM-1024\<close>.
\<close>

theorem export_import_roundtrip:
  assumes pk: "get_member K ''publicKey'' = JStr pk" "pk \<noteq> []"
    and sk: "get_member K ''privateKey'' = JStr sk" "sk \<noteq> []"
  shows "\<exists>record.
           exportKeyPair w K = Inr record
           \<and> (\<forall>alg. alg \<in> set SUPPORTED_ALGORITHMS \<and> get_member K ''algorithm'' = JStr alg \<longrightarrow>
                importKeyPair record
                = Inr (JObj [(''publicKey'', JStr pk), (''privateKey'', JStr sk),
                             (''algorithm'', JStr alg)]))
           \<and> importKeyPair (delete_member ''algorithm'' record)
               = Inr (JObj [(''publicKey'', JStr pk), (''privateKey'', JStr sk),
                            (''algorithm'', JStr ''ML-KEM-1024'')])"
proof -
  obtain fs where K: "K = JObj fs" using pk(1) get_member_is_string_object by blast
  let ?exported = "JObj [(''publicKey'', JStr pk), (''privateKey'', JStr sk),
                       (''algorithm'', get_member K ''algorithm''),
                       (''timestamp'', JNum (now w)), (''version'', JStr ''1.0.0'')]"
  have ex: "exportKeyPair w K = Inr ?exported"
    using pk sk by (simp add: exportKeyPair_def K)
  have imp: "importKeyPair ?exported
             = Inr (JObj [(''publicKey'', JStr pk), (''privateKey'', JStr sk), (''algorithm'', JStr alg)])"
    if "alg \<in> set SUPPORTED_ALGORITHMS" "get_member K ''algorithm'' = JStr alg" for alg
    using that pk(2) sk(2)
    by (auto simp add: importKeyPair_def js_or_def includes_algorithm_def SUPPORTED_ALGORITHMS_def)
  have legacy: "importKeyPair (delete_member ''algorithm'' ?exported)
             = Inr (JObj [(''publicKey'', JStr pk), (''privateKey'', JStr sk),
                          (''algorithm'', JStr ''ML-KEM-1024'')])"
    using pk(2) sk(2)
    by (simp add: importKeyPair_def js_or_def includes_algorithm_def SUPPORTED_ALGORITHMS_def
        DEFAULT_ALGORITHM_def)
  show ?thesis
    using ex imp legacy by blast
qed

theorem export_import_roundtrip_witness:
  "\<exists>record.
     exportKeyPair demo_world
       (JObj [(''publicKey'', JStr ''BAsS''), (''privateKey'', JStr ''AwoR''),
              (''algorithm'', JStr ''ML-KEM-768'')]) = Inr record
     \<and> importKeyPair record
         = Inr (JObj [(''publicKey'', JStr ''BAsS''), (''privateKey'', JStr ''AwoR''),
                      (''algorithm'', JStr ''ML-KEM-768'')])
     \<and> importKeyPair (delete_member ''algorithm'' record)
         = Inr (JObj [(''publicKey'', JStr ''BAsS''), (''privateKey'', JStr ''AwoR''),
                      (''algorithm'', JStr ''ML-KEM-1024'')])"
  using export_import_roundtrip
          [of "JObj [(''publicKey'', JStr ''BAsS''), (''privateKey'', JStr ''AwoR''),
                     (''algorithm'', JStr ''ML-KEM-768'')]" "''BAsS''" "''AwoR''" demo_world]
  by (simp add: SUPPORTED_ALGORITHMS_def)


lemma validatePublicKey_try_cases:
  "validatePublicKey rt publicKey algorithm = Inr True \<longleftrightarrow>
     (\<exists>s keyBytes n m. publicKey = JStr s \<and> base64_regex_test s
        \<and> Base64_decode rt (JStr s) = Inr keyBytes \<and> getKeySizes algorithm = Inr (n, m)
        \<and> length keyBytes = n \<and> \<not> list_all (\<lambda>byte. byte = 0) keyBytes)"
  by (cases publicKey)
     (auto simp add: validatePublicKey_def validatePublicKey_try_def getKeySizes_def Let_def
        default_arg_def DEFAULT_ALGORITHM_def base64_regex_test_nonempty
        split: sum.splits if_splits)

lemma validatePublicKey_total: "validatePublicKey rt publicKey algorithm = Inr True
   \<or> validatePublicKey rt publicKey algorithm = Inr False"
  by (auto simp add: validatePublicKey_def split: sum.splits)

text \<open>
  The format test of \<open>validatePublicKey\<close> is the pattern \<open>/^[A-Za-z0-9+/]+=*$/\<close>: one
  or more Base64 characters, then any number of \<open>=\<close>.  It does not look at the length
  of the text or at the number of padding characters, and \<open>Buffer.from\<close> decodes leniently.
  The text below, \<open>AQEB\<close> 394 times, then \<open>AQE\<close> and six \<open>=\<close>, is not Base64 (1585
  characters, five padding characters too many); it decodes to 1184 bytes \<open>01\<close>, and
  \<open>validatePublicKey\<close> returns \<open>true\<close> for it under ML-KEM-768.
\<close>

lemma sextets_of_ones:
  "bytes_to_sextets (replicate (3 * n + 2) 1) = concat (replicate n [0, 16, 4, 1]) @ [0, 16, 4]"
proof (induction n)
  case 0
  have "replicate 2 (1::byte) = [1, 1]" by (simp add: numeral_2_eq_2)
  then show ?case by simp
next
  case (Suc n)
  have "replicate (3 * Suc n + 2) (1::byte) = 1 # 1 # 1 # replicate (3 * n + 2) 1"
    by (simp add: numeral_3_eq_3)
  with Suc show ?case by simp
qed

lemma base64_of_ones:
  "Base64_encode demo_rt (replicate 1184 1) = concat (replicate 394 ''AQEB'') @ ''AQE=''"
proof -
  have c: "b64_char 0 = CHR ''A''" "b64_char 16 = CHR ''Q''" "b64_char 4 = CHR ''E''"
    "b64_char 1 = CHR ''B''" "b64_char (Suc 0) = CHR ''B''"
    by code_simp+
  have m: "map b64_char (concat (replicate n [0, 16, 4, 1])) = concat (replicate n ''AQEB'')" for n
    by (induction n) (simp_all add: c)
  then have m': "map b64_char (concat (replicate n [0, 16, 4, Suc 0])) = concat (replicate n ''AQEB'')"
    for n by simp
  have l: "(1184::nat) = 3 * 394 + 2" by simp
  have "demo_toString_base64 (replicate (3 * 394 + 2) 1)
        = concat (replicate 394 ''AQEB'') @ ''AQE=''"
    unfolding demo_toString_base64_def sextets_of_ones by (simp add: m m' c)
  then show ?thesis unfolding l by (simp add: Base64_encode_def demo_rt_def)
qed

theorem validatePublicKey_surplus_padding_counterexample:
  "base64_regex_test (concat (replicate 394 ''AQEB'') @ ''AQE======'')
   \<and> Base64_decode demo_rt (JStr (concat (replicate 394 ''AQEB'') @ ''AQE======''))
       = Inr (replicate 1184 1)
   \<and> validatePublicKey demo_rt (JStr (concat (replicate 394 ''AQEB'') @ ''AQE======''))
         (JStr ''ML-KEM-768'')
       = Inr True"
proof -
  have shape: "concat (replicate 394 ''AQEB'') @ ''AQE======''
               = demo_toString_base64 (replicate 1184 1) @ ''=====''"
    using base64_of_ones by (simp add: Base64_encode_def demo_rt_def)
  have pad: "list_all (\<lambda>ch. ch = CHR ''='') ''=====''" by simp
  have ne: "replicate 1184 (1::byte) \<noteq> []" by simp
  have re: "base64_regex_test (concat (replicate 394 ''AQEB'') @ ''AQE======'')"
    unfolding shape by (rule demo_base64_surplus_padding(2)[OF pad ne])
  have dec: "Base64_decode demo_rt (JStr (concat (replicate 394 ''AQEB'') @ ''AQE======''))
             = Inr (replicate 1184 1)"
    unfolding shape using demo_base64_surplus_padding(1)[OF pad, of "replicate 1184 1"]
    by (simp add: Base64_decode_def demo_rt_def)
  have sizes: "getKeySizes (JStr ''ML-KEM-768'') = Inr (1184, 2400)"
    by (simp add: getKeySizes_def default_arg_def DEFAULT_ALGORITHM_def
        ML_KEM_768_PUBLIC_KEY_SIZE_def ML_KEM_768_PRIVATE_KEY_SIZE_def)
  have nz: "\<not> list_all (\<lambda>byte. byte = 0) (replicate 1184 (1::byte))"
    by (simp add: list_all_iff)
  have "validatePublicKey demo_rt (JStr (concat (replicate 394 ''AQEB'') @ ''AQE======''))
         (JStr ''ML-KEM-768'') = Inr True"
    unfolding validatePublicKey_try_cases using re dec sizes nz by auto
  with re dec show ?thesis by simp
qed

text \<open>
  \<^bold>\<open>C7.\<close>  \<open>validatePublicKey\<close> returns \<open>true\<close> or \<open>false\<close> on every value and every
  algorithm argument, whatever the runtime does; it never throws.  It returns \<open>false\<close>
  for a value that is not a string, for a string that the pattern
  \<open>/^[A-Za-z0-9+/]+=*$/\<close> does not match (and not for every string that is not Base64),
  for a key whose decoded length is not the public-key size of the requested suite (so
  also for a key that has the size of another suite), and for a decoded key of zero
  bytes only.
\<close>

theorem validatePublicKey_total_predicate:
  "(validatePublicKey rt publicKey algorithm = Inr True
      \<or> validatePublicKey rt publicKey algorithm = Inr False)
   \<and> (typeof publicKey \<noteq> ''string'' \<longrightarrow> validatePublicKey rt publicKey algorithm = Inr False)
   \<and> (\<forall>s. publicKey = JStr s \<and> \<not> base64_regex_test s \<longrightarrow>
          validatePublicKey rt publicKey algorithm = Inr False)
   \<and> (\<forall>s keyBytes. publicKey = JStr s \<and> Base64_decode rt (JStr s) = Inr keyBytes \<longrightarrow>
          (\<forall>n m. getKeySizes algorithm = Inr (n, m) \<and> length keyBytes \<noteq> n \<longrightarrow>
                 validatePublicKey rt publicKey algorithm = Inr False)
          \<and> (\<forall>other n m. getKeySizes other = Inr (n, m) \<and> length keyBytes = n
                 \<and> default_arg (JStr DEFAULT_ALGORITHM) other
                    \<noteq> default_arg (JStr DEFAULT_ALGORITHM) algorithm \<longrightarrow>
                 validatePublicKey rt publicKey algorithm = Inr False)
          \<and> (list_all (\<lambda>byte. byte = 0) keyBytes \<longrightarrow>
                 validatePublicKey rt publicKey algorithm = Inr False))"
proof -
  have total: "validatePublicKey rt publicKey algorithm = Inr True
      \<or> validatePublicKey rt publicKey algorithm = Inr False"
    by (rule validatePublicKey_total)
  have not_true: "validatePublicKey rt publicKey algorithm \<noteq> Inr True \<Longrightarrow>
     validatePublicKey rt publicKey algorithm = Inr False"
    using total by blast
  show ?thesis
  proof (intro conjI allI impI)
    show "validatePublicKey rt publicKey algorithm = Inr True
      \<or> validatePublicKey rt publicKey algorithm = Inr False" by (rule total)
  next
    assume "typeof publicKey \<noteq> ''string''"
    then show "validatePublicKey rt publicKey algorithm = Inr False"
      by (intro not_true) (auto simp add: validatePublicKey_try_cases)
  next
    fix s assume "publicKey = JStr s \<and> \<not> base64_regex_test s"
    then show "validatePublicKey rt publicKey algorithm = Inr False"
      by (intro not_true) (auto simp add: validatePublicKey_try_cases)
  next
    fix s keyBytes n m
    assume "publicKey = JStr s \<and> Base64_decode rt (JStr s) = Inr keyBytes"
      "getKeySizes algorithm = Inr (n, m) \<and> length keyBytes \<noteq> n"
    then show "validatePublicKey rt publicKey algorithm = Inr False"
      by (intro not_true) (auto simp add: validatePublicKey_try_cases)
  next
    fix s keyBytes other n m
    assume a: "publicKey = JStr s \<and> Base64_decode rt (JStr s) = Inr keyBytes"
      "getKeySizes other = Inr (n, m) \<and> length keyBytes = n
        \<and> default_arg (JStr DEFAULT_ALGORITHM) other \<noteq> default_arg (JStr DEFAULT_ALGORITHM) algorithm"
    show "validatePublicKey rt publicKey algorithm = Inr False"
    proof (intro not_true notI)
      assume "validatePublicKey rt publicKey algorithm = Inr True"
      then obtain n' m' where "getKeySizes algorithm = Inr (n', m')" "length keyBytes = n'"
        using a(1) by (auto simp add: validatePublicKey_try_cases)
      with a(2) show False
        by (auto simp add: getKeySizes_def Let_def ML_KEM_1024_PUBLIC_KEY_SIZE_def
            ML_KEM_768_PUBLIC_KEY_SIZE_def split: if_splits)
    qed
  next
    fix s keyBytes
    assume "publicKey = JStr s \<and> Base64_decode rt (JStr s) = Inr keyBytes"
      "list_all (\<lambda>byte. byte = 0) keyBytes"
    then show "validatePublicKey rt publicKey algorithm = Inr False"
      by (intro not_true) (auto simp add: validatePublicKey_try_cases)
  qed
qed


theorem validatePublicKey_total_predicate_witness:
  "validatePublicKey demo_rt JNull JUndefined = Inr False
   \<and> validatePublicKey demo_rt (JStr []) (JStr ''ML-KEM-768'') = Inr False
   \<and> validatePublicKey demo_rt (JStr ''invalid-key'') JUndefined = Inr False
   \<and> validatePublicKey demo_rt (JStr ''BAsSGQ=='') (JStr ''ML-KEM-1024'') = Inr False
   \<and> validatePublicKey demo_rt (JStr (Base64_encode demo_rt (replicate 1184 1)))
         (JStr ''ML-KEM-1024'') = Inr False
   \<and> validatePublicKey demo_rt (JStr (Base64_encode demo_rt (replicate 1568 1)))
         (JStr ''ML-KEM-768'') = Inr False
   \<and> validatePublicKey demo_rt (JStr (Base64_encode demo_rt (replicate 1568 0)))
         JUndefined = Inr False"
proof -
  have nonstring: "validatePublicKey demo_rt JNull JUndefined = Inr False"
    using validatePublicKey_total_predicate[of demo_rt JNull JUndefined] by simp
  have r0: "\<not> base64_regex_test []" and r1: "\<not> base64_regex_test ''invalid-key''"
    by (simp_all add: base64_regex_test_def base64_class_def)
  have empty: "validatePublicKey demo_rt (JStr []) (JStr ''ML-KEM-768'') = Inr False"
    using validatePublicKey_total_predicate[of demo_rt "JStr []" "JStr ''ML-KEM-768''"] r0
    by simp
  have invalid: "validatePublicKey demo_rt (JStr ''invalid-key'') JUndefined = Inr False"
    using validatePublicKey_total_predicate[of demo_rt "JStr ''invalid-key''" JUndefined] r1
    by simp
  have d4: "Base64_decode demo_rt (JStr ''BAsSGQ=='') = Inr [4, 11, 18, 25]"
    by code_simp
  have k1024: "getKeySizes (JStr ''ML-KEM-1024'') = Inr (1568, 3168)"
    and k768: "getKeySizes (JStr ''ML-KEM-768'') = Inr (1184, 2400)"
    and kdef: "getKeySizes JUndefined = Inr (1568, 3168)"
    by (simp_all add: getKeySizes_def default_arg_def DEFAULT_ALGORITHM_def
        ML_KEM_1024_PUBLIC_KEY_SIZE_def ML_KEM_1024_PRIVATE_KEY_SIZE_def
        ML_KEM_768_PUBLIC_KEY_SIZE_def ML_KEM_768_PRIVATE_KEY_SIZE_def)
  have short: "validatePublicKey demo_rt (JStr ''BAsSGQ=='') (JStr ''ML-KEM-1024'') = Inr False"
    using validatePublicKey_total_predicate[of demo_rt "JStr ''BAsSGQ==''" "JStr ''ML-KEM-1024''"]
      d4 k1024
    by simp
  have other1: "validatePublicKey demo_rt (JStr (Base64_encode demo_rt (replicate 1184 1)))
         (JStr ''ML-KEM-1024'') = Inr False"
    using validatePublicKey_total_predicate[of demo_rt
        "JStr (Base64_encode demo_rt (replicate 1184 1))" "JStr ''ML-KEM-1024''"]
      demo_decode_encode[of "replicate 1184 1"] k768
    by (fastforce simp add: default_arg_def)
  have other2: "validatePublicKey demo_rt (JStr (Base64_encode demo_rt (replicate 1568 1)))
         (JStr ''ML-KEM-768'') = Inr False"
    using validatePublicKey_total_predicate[of demo_rt
        "JStr (Base64_encode demo_rt (replicate 1568 1))" "JStr ''ML-KEM-768''"]
      demo_decode_encode[of "replicate 1568 1"] k1024
    by (fastforce simp add: default_arg_def)
  have zeros: "validatePublicKey demo_rt (JStr (Base64_encode demo_rt (replicate 1568 0)))
         JUndefined = Inr False"
    using validatePublicKey_total_predicate[of demo_rt
        "JStr (Base64_encode demo_rt (replicate 1568 0))" JUndefined]
      demo_decode_encode[of "replicate 1568 0"]
    by (simp add: list_all_iff)
  show ?thesis
    using nonstring empty invalid short other1 other2 zeros by simp
qed


section \<open>The structure test of an envelope\<close>

text \<open>
  \<^bold>\<open>C10.\<close>  \<open>isValidEncryptedMessage\<close> returns \<open>true\<close> or \<open>false\<close> on every value and
  never throws.  It returns \<open>false\<close> for a value that is not a string and for a text
  \<open>JSON.parse\<close> rejects; for a non-empty text that parses, it returns whether the six
  properties \<open>v\<close>, \<open>alg\<close>, \<open>kem\<close>, \<open>s\<close>, \<open>n\<close> and \<open>c\<close> of the parsed value are all
  truthy.  Neither \<open>t\<close> nor the content of the six fields enters the result.
\<close>

theorem isValidEncryptedMessage_total_predicate:
  "(isValidEncryptedMessage rt encryptedContent = Inr True
      \<or> isValidEncryptedMessage rt encryptedContent = Inr False)
   \<and> (typeof encryptedContent \<noteq> ''string'' \<longrightarrow>
         isValidEncryptedMessage rt encryptedContent = Inr False)
   \<and> (\<forall>s. encryptedContent = JStr s \<and> JSON_parse rt s = None \<longrightarrow>
         isValidEncryptedMessage rt encryptedContent = Inr False)
   \<and> (\<forall>s messageData. encryptedContent = JStr s \<and> s \<noteq> [] \<and> JSON_parse rt s = Some messageData \<longrightarrow>
         isValidEncryptedMessage rt encryptedContent
         = Inr (truthy (get_member messageData ''v'') \<and> truthy (get_member messageData ''alg'')
                \<and> truthy (get_member messageData ''kem'') \<and> truthy (get_member messageData ''s'')
                \<and> truthy (get_member messageData ''n'') \<and> truthy (get_member messageData ''c'')))"
proof (intro conjI allI impI)
  show "isValidEncryptedMessage rt encryptedContent = Inr True
      \<or> isValidEncryptedMessage rt encryptedContent = Inr False"
    by (auto simp add: isValidEncryptedMessage_def split: sum.splits)
next
  assume "typeof encryptedContent \<noteq> ''string''"
  then show "isValidEncryptedMessage rt encryptedContent = Inr False"
    by (simp add: isValidEncryptedMessage_def isValidEncryptedMessage_try_def)
next
  fix s assume "encryptedContent = JStr s \<and> JSON_parse rt s = None"
  then show "isValidEncryptedMessage rt encryptedContent = Inr False"
    by (simp add: isValidEncryptedMessage_def isValidEncryptedMessage_try_def)
next
  fix s messageData
  assume a: "encryptedContent = JStr s \<and> s \<noteq> [] \<and> JSON_parse rt s = Some messageData"
  show "isValidEncryptedMessage rt encryptedContent
         = Inr (truthy (get_member messageData ''v'') \<and> truthy (get_member messageData ''alg'')
                \<and> truthy (get_member messageData ''kem'') \<and> truthy (get_member messageData ''s'')
                \<and> truthy (get_member messageData ''n'') \<and> truthy (get_member messageData ''c''))"
  proof (cases "nullish messageData")
    case True
    then have "get_member messageData k = JUndefined" for k by (cases messageData) simp_all
    with a True show ?thesis
      by (simp add: isValidEncryptedMessage_def isValidEncryptedMessage_try_def)
  next
    case False
    with a show ?thesis
      by (simp add: isValidEncryptedMessage_def isValidEncryptedMessage_try_def
          has_required_fields_def)
  qed
qed

theorem isValidEncryptedMessage_total_predicate_witness:
  "isValidEncryptedMessage demo_rt (JNum 5) = Inr False
   \<and> isValidEncryptedMessage demo_rt (JStr ''invalid-data'') = Inr False
   \<and> isValidEncryptedMessage demo_rt (JStr ''null'') = Inr False
   \<and> isValidEncryptedMessage demo_rt
        (JStr ''{\"v\":1,\"alg\":\"none\",\"kem\":\"?\",\"s\":\"?\",\"n\":\"?\",\"c\":\"?\"}'')
       = Inr True
   \<and> isValidEncryptedMessage demo_rt
        (JStr ''{\"v\":3,\"alg\":\"ML-KEM-1024\",\"kem\":\"x8HDwQ==\",\"s\":\"\",\"n\":\"g4qRmJ+mrbS7wsnQ\",\"c\":\"KAnl5eXl5eXl5eXl5eXl5eXl\",\"t\":1700000000000}'')
       = Inr False"
proof -
  have p1: "JSON_parse demo_rt ''invalid-data'' = None"
    and p2: "JSON_parse demo_rt ''null'' = Some JNull"
    and p3: "JSON_parse demo_rt ''{\"v\":1,\"alg\":\"none\",\"kem\":\"?\",\"s\":\"?\",\"n\":\"?\",\"c\":\"?\"}''
             = Some (JObj [(''v'', JNum 1), (''alg'', JStr ''none''), (''kem'', JStr ''?''),
                           (''s'', JStr ''?''), (''n'', JStr ''?''), (''c'', JStr ''?'')])"
    and p4: "JSON_parse demo_rt ''{\"v\":3,\"alg\":\"ML-KEM-1024\",\"kem\":\"x8HDwQ==\",\"s\":\"\",\"n\":\"g4qRmJ+mrbS7wsnQ\",\"c\":\"KAnl5eXl5eXl5eXl5eXl5eXl\",\"t\":1700000000000}''
             = Some (JObj [(''v'', JNum 3), (''alg'', JStr ''ML-KEM-1024''), (''kem'', JStr ''x8HDwQ==''),
                           (''s'', JStr []), (''n'', JStr ''g4qRmJ+mrbS7wsnQ''),
                           (''c'', JStr ''KAnl5eXl5eXl5eXl5eXl5eXl''), (''t'', JNum 1700000000000)])"
    by code_simp+
  have a: "isValidEncryptedMessage demo_rt (JNum 5) = Inr False"
    using isValidEncryptedMessage_total_predicate[of demo_rt "JNum 5"] by simp
  have b: "isValidEncryptedMessage demo_rt (JStr ''invalid-data'') = Inr False"
    using isValidEncryptedMessage_total_predicate[of demo_rt "JStr ''invalid-data''"] p1 by simp
  have c: "isValidEncryptedMessage demo_rt (JStr ''null'') = Inr False"
    using isValidEncryptedMessage_total_predicate[of demo_rt "JStr ''null''"] p2 by simp
  have d: "isValidEncryptedMessage demo_rt
        (JStr ''{\"v\":1,\"alg\":\"none\",\"kem\":\"?\",\"s\":\"?\",\"n\":\"?\",\"c\":\"?\"}'')
       = Inr True"
    using isValidEncryptedMessage_total_predicate[of demo_rt
        "JStr ''{\"v\":1,\"alg\":\"none\",\"kem\":\"?\",\"s\":\"?\",\"n\":\"?\",\"c\":\"?\"}''"] p3
    by simp
  have e: "isValidEncryptedMessage demo_rt
        (JStr ''{\"v\":3,\"alg\":\"ML-KEM-1024\",\"kem\":\"x8HDwQ==\",\"s\":\"\",\"n\":\"g4qRmJ+mrbS7wsnQ\",\"c\":\"KAnl5eXl5eXl5eXl5eXl5eXl\",\"t\":1700000000000}'')
       = Inr False"
    using isValidEncryptedMessage_total_predicate[of demo_rt
        "JStr ''{\"v\":3,\"alg\":\"ML-KEM-1024\",\"kem\":\"x8HDwQ==\",\"s\":\"\",\"n\":\"g4qRmJ+mrbS7wsnQ\",\"c\":\"KAnl5eXl5eXl5eXl5eXl5eXl\",\"t\":1700000000000}''"] p4
    by simp
  show ?thesis using a b c d e by simp
qed

section \<open>Encryption and decryption\<close>

text \<open>
  \<open>encrypt\<close> passes the message through \<open>new TextEncoder().encode\<close> and \<open>decrypt\<close>
  passes the opened plaintext through \<open>new TextDecoder().decode\<close>, both with the default
  options.  The decoder then drops a leading byte order mark, so a message that begins
  with U+FEFF comes back without it.  On the reference runtime, whose primitives keep
  their contracts, with the ML-KEM-1024 key pair generated in \<open>demo_world\<close>: the message
  U+FEFF \<open>Hi\<close> (in UTF-8, \<open>EF BB BF 48 69\<close>) is encrypted, and decrypted to \<open>Hi\<close>.
\<close>

theorem encrypt_decrypt_roundtrip_counterexample:
  "KEM_contract demo_rt \<and> HKDF_contract demo_rt \<and> AEAD_contract demo_rt
   \<and> fst (generateKeyPair demo_rt demo_world (JStr ''ML-KEM-1024''))
       = Inr (JObj [(''publicKey'', JStr ''BAsSGQ==''), (''privateKey'', JStr ''AwoRGA==''),
                    (''algorithm'', JStr ''ML-KEM-1024'')])
   \<and> fst (encrypt demo_rt demo_world (JStr (CHR 0xEF # CHR 0xBB # CHR 0xBF # ''Hi''))
             (JStr ''BAsSGQ=='') (JStr ''ML-KEM-1024''))
       = Inr ''{\"v\":3,\"alg\":\"ML-KEM-1024\",\"kem\":\"BwEDAQ==\",\"s\":\"4+rx+P8GDRQbIikwNz5FTFNaYWhvdn2Ei5KZoKeutbw=\",\"n\":\"w8rR2N/m7fT7AgkQ\",\"c\":\"D1tfqImxsbGxsbGxsbGxsbGxsbGx\",\"t\":1700000000000}''
   \<and> fst (decrypt demo_rt
             (JStr ''{\"v\":3,\"alg\":\"ML-KEM-1024\",\"kem\":\"BwEDAQ==\",\"s\":\"4+rx+P8GDRQbIikwNz5FTFNaYWhvdn2Ei5KZoKeutbw=\",\"n\":\"w8rR2N/m7fT7AgkQ\",\"c\":\"D1tfqImxsbGxsbGxsbGxsbGxsbGx\",\"t\":1700000000000}'')
             (JStr ''AwoRGA=='') (JStr ''ML-KEM-1024''))
       = Inr ''Hi''
   \<and> ''Hi'' \<noteq> CHR 0xEF # CHR 0xBB # CHR 0xBF # ''Hi''"
proof -
  have seal: "ChaCha20Poly1305_encrypt demo_rt
     [224, 224, 224, 224, 252, 12, 28, 12, 24, 40, 56, 40, 52, 52, 84, 84, 80, 80, 112, 112,
      108, 124, 108, 156, 136, 152, 136, 184, 164, 164, 164, 164]
     (encrypt_nonce demo_world)
     (TextEncoder_encode demo_rt (JStr (CHR 0xEF # CHR 0xBB # CHR 0xBF # ''Hi'')))
     = Inr [15, 91, 95, 168, 137, 177, 177, 177, 177, 177, 177, 177, 177, 177, 177, 177, 177,
            177, 177, 177, 177]"
    by code_simp
  have field: "Base64_encode demo_rt
     [15, 91, 95, 168, 137, 177, 177, 177, 177, 177, 177, 177, 177, 177, 177, 177, 177, 177,
      177, 177, 177] = ''D1tfqImxsbGxsbGxsbGxsbGxsbGx''"
    by code_simp
  have ser: "JSON_stringify demo_rt
     (encryptedMessage (JStr ''ML-KEM-1024'') ''BwEDAQ==''
        ''4+rx+P8GDRQbIikwNz5FTFNaYWhvdn2Ei5KZoKeutbw='' ''w8rR2N/m7fT7AgkQ''
        ''D1tfqImxsbGxsbGxsbGxsbGxsbGx'' 1700000000000)
     = ''{\"v\":3,\"alg\":\"ML-KEM-1024\",\"kem\":\"BwEDAQ==\",\"s\":\"4+rx+P8GDRQbIikwNz5FTFNaYWhvdn2Ei5KZoKeutbw=\",\"n\":\"w8rR2N/m7fT7AgkQ\",\"c\":\"D1tfqImxsbGxsbGxsbGxsbGxsbGx\",\"t\":1700000000000}''"
    by code_simp
  have enc: "fst (encrypt demo_rt demo_world (JStr (CHR 0xEF # CHR 0xBB # CHR 0xBF # ''Hi''))
             (JStr ''BAsSGQ=='') (JStr ''ML-KEM-1024''))
       = Inr ''{\"v\":3,\"alg\":\"ML-KEM-1024\",\"kem\":\"BwEDAQ==\",\"s\":\"4+rx+P8GDRQbIikwNz5FTFNaYWhvdn2Ei5KZoKeutbw=\",\"n\":\"w8rR2N/m7fT7AgkQ\",\"c\":\"D1tfqImxsbGxsbGxsbGxsbGxsbGx\",\"t\":1700000000000}''"
    using demo_encrypt_message[OF seal] unfolding field ser .
  have dec: "fst (decrypt demo_rt
             (JStr ''{\"v\":3,\"alg\":\"ML-KEM-1024\",\"kem\":\"BwEDAQ==\",\"s\":\"4+rx+P8GDRQbIikwNz5FTFNaYWhvdn2Ei5KZoKeutbw=\",\"n\":\"w8rR2N/m7fT7AgkQ\",\"c\":\"D1tfqImxsbGxsbGxsbGxsbGxsbGx\",\"t\":1700000000000}'')
             (JStr ''AwoRGA=='') (JStr ''ML-KEM-1024''))
       = Inr ''Hi''"
    by code_simp
  show ?thesis
    using KEM_contract_demo HKDF_contract_demo AEAD_contract_demo demo_keys_1024 enc dec
    by simp
qed

text \<open>
  \<^bold>\<open>C1.\<close>  Let the runtime keep the contracts of Base64, JSON, the key encapsulation,
  HKDF and the cipher, let \<open>S\<close> be a supported suite and \<open>keyPair\<close> a key pair that
  \<open>generateKeyPair\<close> returned for \<open>S\<close>, and let \<open>M\<close> be a message that the text codec
  reads back: \<open>TextDecoder.decode\<close> of \<open>TextEncoder.encode\<close> of \<open>M\<close> is \<open>M\<close>, which holds
  for the empty string, long strings and multibyte content, and fails for a string with
  a leading U+FEFF or a lone surrogate.  Then, in every world, \<open>encrypt\<close> of \<open>M\<close> to
  the public key under \<open>S\<close> returns an envelope, and \<open>decrypt\<close> of that envelope with
  the private key returns \<open>M\<close>, with \<open>S\<close> passed to \<open>decrypt\<close> and with the suite left
  out.
\<close>

theorem encrypt_decrypt_roundtrip:
  assumes contracts: "Base64_contract rt" "JSON_contract rt" "KEM_contract rt" "HKDF_contract rt"
      "AEAD_contract rt"
    and suite: "S \<in> set SUPPORTED_ALGORITHMS"
    and keys: "fst (generateKeyPair rt w0 (JStr S)) = Inr keyPair"
    and codec: "TextDecoder_decode rt (TextEncoder_encode rt (JStr M)) = M"
  shows "\<exists>text.
           fst (encrypt rt w (JStr M) (get_member keyPair ''publicKey'') (JStr S)) = Inr text
           \<and> fst (decrypt rt (JStr text) (get_member keyPair ''privateKey'') (JStr S)) = Inr M
           \<and> fst (decrypt rt (JStr text) (get_member keyPair ''privateKey'') JUndefined) = Inr M"
proof -
  let ?K = "if S = ''ML-KEM-768'' then MlKem768 else MlKem1024"
  obtain pkb skb where gen: "kem_generateKeyPair rt ?K (fst (getRandomBytes w0 64)) = Inr (pkb, skb)"
    and kp: "keyPair = JObj [(''publicKey'', JStr (Base64_encode rt pkb)),
                             (''privateKey'', JStr (Base64_encode rt skb)),
                             (''algorithm'', JStr S)]"
    using generateKeyPair_success[OF keys suite] by blast
  have S: "S \<noteq> []" using suite by (auto simp add: SUPPORTED_ALGORITHMS_def)
  have pk: "get_member keyPair ''publicKey'' = JStr (Base64_encode rt pkb)"
    and sk: "get_member keyPair ''privateKey'' = JStr (Base64_encode rt skb)"
    by (simp_all add: kp)
  obtain ser bufs w' where
    enc: "encrypt rt w (JStr M) (JStr (Base64_encode rt pkb)) (JStr S) = (Inr ser, bufs, w')"
    and dec1: "decrypt rt (JStr ser) (JStr (Base64_encode rt skb)) (JStr S)
               = (Inr M, \<lparr>sharedSecret_buffer = sharedSecret_buffer bufs,
                           chachaKey_buffer = chachaKey_buffer bufs\<rparr>)"
    using roundtrip_core[OF contracts(1,3,4,5,2) gen S _ codec, of "JStr S" w] by blast
  obtain ser' bufs' w'' where
    enc': "encrypt rt w (JStr M) (JStr (Base64_encode rt pkb)) (JStr S) = (Inr ser', bufs', w'')"
    and dec2: "decrypt rt (JStr ser') (JStr (Base64_encode rt skb)) JUndefined
               = (Inr M, \<lparr>sharedSecret_buffer = sharedSecret_buffer bufs',
                           chachaKey_buffer = chachaKey_buffer bufs'\<rparr>)"
    using roundtrip_core[OF contracts(1,3,4,5,2) gen S _ codec, of JUndefined w] by blast
  have same: "ser' = ser" using enc enc' by simp
  show ?thesis
    using enc dec1 dec2 unfolding pk sk same by (intro exI[of _ ser]) simp
qed

theorem encrypt_decrypt_roundtrip_witness:
  "(\<exists>text.
      fst (encrypt demo_rt demo_world (JStr ''Hello, quantum-resistant world!'')
             (JStr ''BAsSGQ=='') (JStr ''ML-KEM-1024'')) = Inr text
      \<and> fst (decrypt demo_rt (JStr text) (JStr ''AwoRGA=='') (JStr ''ML-KEM-1024''))
          = Inr ''Hello, quantum-resistant world!''
      \<and> fst (decrypt demo_rt (JStr text) (JStr ''AwoRGA=='') JUndefined)
          = Inr ''Hello, quantum-resistant world!'')
   \<and> (\<exists>text.
      fst (encrypt demo_rt demo_world (JStr []) (JStr ''BAsS'') (JStr ''ML-KEM-768'')) = Inr text
      \<and> fst (decrypt demo_rt (JStr text) (JStr ''AwoR'') (JStr ''ML-KEM-768'')) = Inr []
      \<and> fst (decrypt demo_rt (JStr text) (JStr ''AwoR'') JUndefined) = Inr [])"
proof -
  have s1: "''ML-KEM-1024'' \<in> set SUPPORTED_ALGORITHMS"
    and s2: "''ML-KEM-768'' \<in> set SUPPORTED_ALGORITHMS"
    by (simp_all add: SUPPORTED_ALGORITHMS_def)
  note c = Base64_contract_demo JSON_contract_demo KEM_contract_demo HKDF_contract_demo
    AEAD_contract_demo
  have t1: "TextDecoder_decode demo_rt
              (TextEncoder_encode demo_rt (JStr ''Hello, quantum-resistant world!''))
            = ''Hello, quantum-resistant world!''"
    and t2: "TextDecoder_decode demo_rt (TextEncoder_encode demo_rt (JStr [])) = []"
    by (rule demo_text_codec, simp add: demo_rt_def demo_encode_def utf8_bom_def)+
  show ?thesis
    using encrypt_decrypt_roundtrip[OF c s1 demo_keys_1024 t1, of demo_world]
          encrypt_decrypt_roundtrip[OF c s2 demo_keys_768 t2, of demo_world]
    by simp
qed



section \<open>The declared suite of an envelope\<close>




section \<open>The structure test of \<open>decrypt\<close>\<close>

lemma get_member_delete_member:
  "k \<noteq> k' \<Longrightarrow> get_member (delete_member k' messageData) k = get_member messageData k"
  by (cases messageData) (simp_all add: delete_conv')

lemma nullish_delete_member: "nullish (delete_member k messageData) = nullish messageData"
  by (cases messageData) simp_all

text \<open>\<open>decrypt\<close> reads the parsed envelope through six properties only.\<close>

lemma decrypt_reads_six_fields:
  assumes "s \<noteq> []" "s' \<noteq> []"
    and "JSON_parse rt s = Some messageData" "JSON_parse rt s' = Some messageData'"
    and "nullish messageData' = nullish messageData"
    and "\<forall>k \<in> {''v'', ''alg'', ''kem'', ''s'', ''n'', ''c''}.
           get_member messageData' k = get_member messageData k"
  shows "decrypt rt (JStr s') privateKey algorithm = decrypt rt (JStr s) privateKey algorithm"
proof -
  have f: "get_member messageData' ''v'' = get_member messageData ''v''"
    "get_member messageData' ''alg'' = get_member messageData ''alg''"
    "get_member messageData' ''kem'' = get_member messageData ''kem''"
    "get_member messageData' ''s'' = get_member messageData ''s''"
    "get_member messageData' ''n'' = get_member messageData ''n''"
    "get_member messageData' ''c'' = get_member messageData ''c''"
    using assms(6) by simp_all
  have t: "truthy (JStr s') = truthy (JStr s)" "typeof (JStr s') = typeof (JStr s)"
    using assms(1,2) by simp_all
  show ?thesis
    unfolding decrypt_def Let_def has_required_fields_def str_of.simps t assms(3,4)
      option.case f assms(5) ..
qed

text \<open>
  The envelope below is the one \<open>encrypt\<close> returns for the message \<open>Hi\<close> with its
  property \<open>t\<close> removed.  \<open>decrypt\<close> never reads \<open>t\<close>: it returns the message.
\<close>

theorem decrypt_without_timestamp_counterexample:
  "fst (decrypt demo_rt
         (JStr ''{\"v\":3,\"alg\":\"ML-KEM-1024\",\"kem\":\"BwEDAQ==\",\"s\":\"4+rx+P8GDRQbIikwNz5FTFNaYWhvdn2Ei5KZoKeutbw=\",\"n\":\"w8rR2N/m7fT7AgkQ\",\"c\":\"qInl5eXl5eXl5eXl5eXl5eXl\"}'')
         (JStr ''AwoRGA=='') JUndefined)
   = Inr ''Hi''"
  by code_simp

text \<open>
  \<^bold>\<open>C5.\<close>  Let the text and the private key be non-empty strings.  \<open>decrypt\<close> fails with
  \<open>Invalid encrypted message format\<close> exactly when \<open>JSON.parse\<close> rejects the text.  When
  the text parses to a value other than \<open>null\<close>, \<open>decrypt\<close> fails with
  \<open>Missing required fields in encrypted message\<close> exactly when one of the six properties
  \<open>v\<close>, \<open>alg\<close>, \<open>kem\<close>, \<open>s\<close>, \<open>n\<close>, \<open>c\<close> of the parsed value is absent or falsy; when it
  parses to \<open>null\<close>, reading \<open>v\<close> throws.  The property \<open>t\<close> is not among the fields
  tested: a text that parses to the same value without \<open>t\<close> gets the same result.
\<close>

theorem decrypt_structure_test_six_fields:
  assumes "s \<noteq> []" "truthy privateKey" "typeof privateKey = ''string''"
  shows "(fst (decrypt rt (JStr s) privateKey algorithm)
            = Inl (Decryption_failed Invalid_encrypted_message_format)
          \<longleftrightarrow> JSON_parse rt s = None)
         \<and> (\<forall>messageData. JSON_parse rt s = Some messageData \<and> \<not> nullish messageData \<longrightarrow>
               (fst (decrypt rt (JStr s) privateKey algorithm)
                  = Inl (Decryption_failed Missing_required_fields)
                \<longleftrightarrow> \<not> (truthy (get_member messageData ''v'')
                        \<and> truthy (get_member messageData ''alg'')
                        \<and> truthy (get_member messageData ''kem'')
                        \<and> truthy (get_member messageData ''s'')
                        \<and> truthy (get_member messageData ''n'')
                        \<and> truthy (get_member messageData ''c''))))
         \<and> (\<forall>messageData. JSON_parse rt s = Some messageData \<and> nullish messageData \<longrightarrow>
               fst (decrypt rt (JStr s) privateKey algorithm)
               = Inl (Decryption_failed (TypeError_reading ''v'')))
         \<and> (\<forall>messageData s'. s' \<noteq> [] \<and> JSON_parse rt s = Some messageData
                \<and> JSON_parse rt s' = Some (delete_member ''t'' messageData) \<longrightarrow>
               decrypt rt (JStr s') privateKey algorithm
               = decrypt rt (JStr s) privateKey algorithm)"
proof (intro conjI allI impI)
  show "fst (decrypt rt (JStr s) privateKey algorithm)
            = Inl (Decryption_failed Invalid_encrypted_message_format)
          \<longleftrightarrow> JSON_parse rt s = None"
  proof (cases "JSON_parse rt s")
    case None
    then show ?thesis using decrypt_structure_test(1)[OF assms None] by simp
  next
    case (Some messageData)
    show ?thesis
    proof (cases "nullish messageData")
      case True
      then show ?thesis using decrypt_structure_test(2)[OF assms Some True] Some by simp
    next
      case nn: False
      show ?thesis
      proof (cases "has_required_fields messageData")
        case False
        then show ?thesis using decrypt_structure_test(3)[OF assms Some nn False] Some by simp
      next
        case True
        then show ?thesis
          using decrypt_after_structure_test[OF assms Some nn True, of algorithm] Some by auto
      qed
    qed
  qed
next
  fix messageData
  assume a: "JSON_parse rt s = Some messageData \<and> \<not> nullish messageData"
  show "fst (decrypt rt (JStr s) privateKey algorithm)
          = Inl (Decryption_failed Missing_required_fields)
        \<longleftrightarrow> \<not> (truthy (get_member messageData ''v'')
                \<and> truthy (get_member messageData ''alg'')
                \<and> truthy (get_member messageData ''kem'')
                \<and> truthy (get_member messageData ''s'')
                \<and> truthy (get_member messageData ''n'')
                \<and> truthy (get_member messageData ''c''))"
  proof (cases "has_required_fields messageData")
    case False
    then show ?thesis
      using decrypt_structure_test(3)[OF assms conjunct1[OF a] conjunct2[OF a] False]
      by (simp add: has_required_fields_def)
  next
    case True
    then show ?thesis
      using decrypt_after_structure_test[OF assms conjunct1[OF a] conjunct2[OF a] True,
          of algorithm]
      by (auto simp add: has_required_fields_def)
  qed
next
  fix messageData
  assume a: "JSON_parse rt s = Some messageData \<and> nullish messageData"
  show "fst (decrypt rt (JStr s) privateKey algorithm)
        = Inl (Decryption_failed (TypeError_reading ''v''))"
    using decrypt_structure_test(2)[OF assms conjunct1[OF a] conjunct2[OF a]] by simp
next
  fix messageData s'
  assume a: "s' \<noteq> [] \<and> JSON_parse rt s = Some messageData
             \<and> JSON_parse rt s' = Some (delete_member ''t'' messageData)"
  show "decrypt rt (JStr s') privateKey algorithm = decrypt rt (JStr s) privateKey algorithm"
    using a assms(1)
    by (intro decrypt_reads_six_fields[where messageData = messageData
          and messageData' = "delete_member ''t'' messageData"])
       (simp_all add: get_member_delete_member nullish_delete_member)
qed

theorem decrypt_structure_test_six_fields_witness:
  "fst (decrypt demo_rt (JStr ''not json'') (JStr ''AwoRGA=='') JUndefined)
   = Inl (Decryption_failed Invalid_encrypted_message_format)
   \<and> fst (decrypt demo_rt (JStr ''null'') (JStr ''AwoRGA=='') JUndefined)
     = Inl (Decryption_failed (TypeError_reading ''v''))
   \<and> fst (decrypt demo_rt
            (JStr ''{\"v\":3,\"alg\":\"ML-KEM-1024\",\"kem\":\"BwEDAQ==\",\"s\":\"\",\"n\":\"w8rR2N/m7fT7AgkQ\",\"c\":\"qInl5eXl5eXl5eXl5eXl5eXl\",\"t\":1700000000000}'')
            (JStr ''AwoRGA=='') JUndefined)
     = Inl (Decryption_failed Missing_required_fields)
   \<and> fst (decrypt demo_rt
            (JStr ''{\"v\":3,\"alg\":\"ML-KEM-1024\",\"kem\":\"BwEDAQ==\",\"s\":\"4+rx+P8GDRQbIikwNz5FTFNaYWhvdn2Ei5KZoKeutbw=\",\"n\":\"w8rR2N/m7fT7AgkQ\",\"c\":\"qInl5eXl5eXl5eXl5eXl5eXl\",\"t\":1700000000000}'')
            (JStr ''AwoRGA=='') JUndefined)
     \<noteq> Inl (Decryption_failed Missing_required_fields)"
proof -
  have p1: "JSON_parse demo_rt ''not json'' = None"
    and p2: "JSON_parse demo_rt ''null'' = Some JNull"
    and p3: "JSON_parse demo_rt ''{\"v\":3,\"alg\":\"ML-KEM-1024\",\"kem\":\"BwEDAQ==\",\"s\":\"\",\"n\":\"w8rR2N/m7fT7AgkQ\",\"c\":\"qInl5eXl5eXl5eXl5eXl5eXl\",\"t\":1700000000000}''
             = Some (encryptedMessage (JStr ''ML-KEM-1024'') ''BwEDAQ=='' [] ''w8rR2N/m7fT7AgkQ''
                       ''qInl5eXl5eXl5eXl5eXl5eXl'' 1700000000000)"
    and p4: "JSON_parse demo_rt ''{\"v\":3,\"alg\":\"ML-KEM-1024\",\"kem\":\"BwEDAQ==\",\"s\":\"4+rx+P8GDRQbIikwNz5FTFNaYWhvdn2Ei5KZoKeutbw=\",\"n\":\"w8rR2N/m7fT7AgkQ\",\"c\":\"qInl5eXl5eXl5eXl5eXl5eXl\",\"t\":1700000000000}''
             = Some (encryptedMessage (JStr ''ML-KEM-1024'') ''BwEDAQ==''
                       ''4+rx+P8GDRQbIikwNz5FTFNaYWhvdn2Ei5KZoKeutbw='' ''w8rR2N/m7fT7AgkQ''
                       ''qInl5eXl5eXl5eXl5eXl5eXl'' 1700000000000)"
    by code_simp+
  have k: "truthy (JStr ''AwoRGA=='')" "typeof (JStr ''AwoRGA=='') = ''string''" by simp_all
  have n1: "''not json'' \<noteq> []" and n2: "''null'' \<noteq> []"
    and n3: "''{\"v\":3,\"alg\":\"ML-KEM-1024\",\"kem\":\"BwEDAQ==\",\"s\":\"\",\"n\":\"w8rR2N/m7fT7AgkQ\",\"c\":\"qInl5eXl5eXl5eXl5eXl5eXl\",\"t\":1700000000000}'' \<noteq> []"
    and n4: "''{\"v\":3,\"alg\":\"ML-KEM-1024\",\"kem\":\"BwEDAQ==\",\"s\":\"4+rx+P8GDRQbIikwNz5FTFNaYWhvdn2Ei5KZoKeutbw=\",\"n\":\"w8rR2N/m7fT7AgkQ\",\"c\":\"qInl5eXl5eXl5eXl5eXl5eXl\",\"t\":1700000000000}'' \<noteq> []"
    by simp_all
  have a: "fst (decrypt demo_rt (JStr ''not json'') (JStr ''AwoRGA=='') JUndefined)
           = Inl (Decryption_failed Invalid_encrypted_message_format)"
    using decrypt_structure_test_six_fields[OF n1 k, of demo_rt JUndefined, THEN conjunct1] p1
    by simp
  have b: "fst (decrypt demo_rt (JStr ''null'') (JStr ''AwoRGA=='') JUndefined)
           = Inl (Decryption_failed (TypeError_reading ''v''))"
    using decrypt_structure_test_six_fields[OF n2 k, of demo_rt JUndefined,
        THEN conjunct2, THEN conjunct2, THEN conjunct1, rule_format, of JNull] p2
    by simp
  have c: "fst (decrypt demo_rt
            (JStr ''{\"v\":3,\"alg\":\"ML-KEM-1024\",\"kem\":\"BwEDAQ==\",\"s\":\"\",\"n\":\"w8rR2N/m7fT7AgkQ\",\"c\":\"qInl5eXl5eXl5eXl5eXl5eXl\",\"t\":1700000000000}'')
            (JStr ''AwoRGA=='') JUndefined)
     = Inl (Decryption_failed Missing_required_fields)"
    using decrypt_structure_test_six_fields[OF n3 k, of demo_rt JUndefined,
        THEN conjunct2, THEN conjunct1, rule_format, OF conjI, OF p3]
    by (simp add: get_member_encryptedMessage)
  have d: "fst (decrypt demo_rt
            (JStr ''{\"v\":3,\"alg\":\"ML-KEM-1024\",\"kem\":\"BwEDAQ==\",\"s\":\"4+rx+P8GDRQbIikwNz5FTFNaYWhvdn2Ei5KZoKeutbw=\",\"n\":\"w8rR2N/m7fT7AgkQ\",\"c\":\"qInl5eXl5eXl5eXl5eXl5eXl\",\"t\":1700000000000}'')
            (JStr ''AwoRGA=='') JUndefined)
     \<noteq> Inl (Decryption_failed Missing_required_fields)"
    using decrypt_structure_test_six_fields[OF n4 k, of demo_rt JUndefined,
        THEN conjunct2, THEN conjunct1, rule_format, OF conjI, OF p4]
    by (simp add: get_member_encryptedMessage)
  show ?thesis using a b c d by (intro conjI)
qed

section \<open>Erasure of key material\<close>

text \<open>
  \<^bold>\<open>C3.\<close>  In \<open>decrypt\<close> the two \<open>secureClear\<close> calls follow
  \<open>ChaCha20Poly1305.decrypt\<close> inside the \<open>try\<close> block, and the \<open>catch\<close> clause only
  rethrows; there is no \<open>finally\<close>.  So when the cipher rejects the ciphertext, after
  the shared secret has been decapsulated and the key derived, \<open>decrypt\<close> throws and
  leaves both buffers as they are: the shared secret and the derived key, not zeros.
  (\<open>encrypt\<close> has the same shape: its two \<open>secureClear\<close> calls are reached only when
  nothing before them threw.)
\<close>

theorem decrypt_failure_leaves_key_material:
  assumes nonempty: "ser \<noteq> []" "sk \<noteq> []"
    and parse: "JSON_parse rt ser = Some messageData" "\<not> nullish messageData"
      "has_required_fields messageData"
    and skb: "Buffer_from_base64 rt (JStr sk) = Inr privateKeyBytes"
    and kct: "Buffer_from_base64 rt (get_member messageData ''kem'') = Inr kemCiphertext"
    and decap: "kem_decap rt
                  (if js_or (default_arg JNull algorithm) (get_member messageData ''alg'')
                      = JStr ''ML-KEM-768''
                   then MlKem768 else MlKem1024) kemCiphertext privateKeyBytes
                = Inr sharedSecret"
    and salt: "Buffer_from_base64 rt (get_member messageData ''s'') = Inr salt"
    and hkdf: "HKDF_derive rt sharedSecret salt ''ChaCha20-Poly1305'' 32 = Inr chachaKey"
    and nonce: "Buffer_from_base64 rt (get_member messageData ''n'') = Inr nonce"
    and ct: "Buffer_from_base64 rt (get_member messageData ''c'') = Inr messageCiphertext"
    and reject: "chacha20poly1305_decrypt rt chachaKey nonce [] messageCiphertext = Inl msg"
  shows "decrypt rt (JStr ser) (JStr sk) algorithm
         = (Inl (Decryption_failed (ChaCha20_Poly1305_decryption_failed (Thrown msg))),
            \<lparr>sharedSecret_buffer = Some sharedSecret, chachaKey_buffer = Some chachaKey\<rparr>)"
  using decrypt_steps[OF nonempty parse skb kct decap salt hkdf nonce ct] reject by simp

theorem decrypt_failure_leaves_key_material_witness:
  "decrypt demo_rt
     (JStr ''{\"v\":3,\"alg\":\"ML-KEM-1024\",\"kem\":\"BwEDAQ==\",\"s\":\"4+rx+P8GDRQbIikwNz5FTFNaYWhvdn2Ei5KZoKeutbw=\",\"n\":\"w8rR2N/m7fT7AgkQ\",\"c\":\"qInl5eXl5eXl5eXl5eXXXXXX\",\"t\":1700000000000}'')
     (JStr ''AwoRGA=='') JUndefined
   = (Inl (Decryption_failed (ChaCha20_Poly1305_decryption_failed (Thrown ''invalid tag''))),
      \<lparr>sharedSecret_buffer = Some [3, 10, 17, 24],
       chachaKey_buffer = Some
         [224, 224, 224, 224, 252, 12, 28, 12, 24, 40, 56, 40, 52, 52, 84, 84, 80, 80, 112, 112,
          108, 124, 108, 156, 136, 152, 136, 184, 164, 164, 164, 164]\<rparr>)
   \<and> secureClear [3, 10, 17, 24] = [0, 0, 0, 0]"
proof -
  have "decrypt demo_rt
     (JStr ''{\"v\":3,\"alg\":\"ML-KEM-1024\",\"kem\":\"BwEDAQ==\",\"s\":\"4+rx+P8GDRQbIikwNz5FTFNaYWhvdn2Ei5KZoKeutbw=\",\"n\":\"w8rR2N/m7fT7AgkQ\",\"c\":\"qInl5eXl5eXl5eXl5eXXXXXX\",\"t\":1700000000000}'')
     (JStr ''AwoRGA=='') JUndefined
   = (Inl (Decryption_failed (ChaCha20_Poly1305_decryption_failed (Thrown ''invalid tag''))),
      \<lparr>sharedSecret_buffer = Some [3, 10, 17, 24],
       chachaKey_buffer = Some
         [224, 224, 224, 224, 252, 12, 28, 12, 24, 40, 56, 40, 52, 52, 84, 84, 80, 80, 112, 112,
          108, 124, 108, 156, 136, 152, 136, 184, 164, 164, 164, 164]\<rparr>)"
    by (rule decrypt_failure_leaves_key_material[OF _ _ demo_tampered(1),
          where salt = "encrypt_salt demo_world" and nonce = "encrypt_nonce demo_world"
            and privateKeyBytes = "[3, 10, 17, 24]" and kemCiphertext = "[7, 1, 3, 1]"
            and sharedSecret = "[3, 10, 17, 24]"
            and messageCiphertext = "[168, 137, 229, 229, 229, 229, 229, 229, 229, 229, 229,
              229, 229, 229, 215, 93, 117, 215]"
            and chachaKey = "[224, 224, 224, 224, 252, 12, 28, 12, 24, 40, 56, 40, 52, 52, 84,
              84, 80, 80, 112, 112, 108, 124, 108, 156, 136, 152, 136, 184, 164, 164, 164, 164]"])
       (simp_all add: get_member_encryptedMessage has_required_fields_encryptedMessage
          demo_decrypt_stages demo_tampered(2,3) demo_key js_or_def default_arg_def)
  then show ?thesis by (simp add: secureClear_def)
qed

section \<open>A modified ciphertext field\<close>





section \<open>Two encryptions of one message\<close>




end
